theory Spec2Isabelle
  imports Complex_Main "HOL-Library.Sublist"
begin

section \<open>JavaScript strings\<close>

text \<open>
  A JavaScript string is a sequence of UTF-16 code units. The model covers the code
  units U+0000 to U+00FF, one \<^typ>\<open>char\<close> each, so \<^typ>\<open>string\<close> is a
  string all of whose code units lie in that range. On this range the white space of
  \<^verbatim>\<open>\s\<close> and of \<^verbatim>\<open>trim()\<close> is TAB, LF, VT, FF, CR, SPACE and NBSP, and
  \<^verbatim>\<open>toLowerCase()\<close> adds 32 to the capital letters A-Z and to the capital letters
  of the Latin-1 supplement (U+00C0 to U+00DE without the multiplication sign U+00D7).
\<close>

definition isSpace :: "char \<Rightarrow> bool" where
  "isSpace c = (of_char c \<in> {9, 10, 11, 12, 13, 32, 160 :: nat})"

definition toLowerChar :: "char \<Rightarrow> char" where
  "toLowerChar c =
     (let n = (of_char c :: nat)
      in if (65 \<le> n \<and> n \<le> 90) \<or> (192 \<le> n \<and> n \<le> 222 \<and> n \<noteq> 215)
         then char_of (n + 32) else c)"

definition toLowerCase :: "string \<Rightarrow> string" where
  "toLowerCase s = map toLowerChar s"

text \<open>The character class \<^verbatim>\<open>[a-z0-9]\<close>.\<close>

definition isLowerAlnum :: "char \<Rightarrow> bool" where
  "isLowerAlnum c =
     (let n = (of_char c :: nat) in (97 \<le> n \<and> n \<le> 122) \<or> (48 \<le> n \<and> n \<le> 57))"

text \<open>\<^verbatim>\<open>s.trim()\<close>: white space removed at both ends.\<close>

definition trim :: "string \<Rightarrow> string" where
  "trim s = rev (dropWhile isSpace (rev (dropWhile isSpace s)))"

text \<open>\<^verbatim>\<open>s.includes(t)\<close>: \<open>t\<close> occurs in \<open>s\<close> as a contiguous substring.\<close>

fun js_includes :: "string \<Rightarrow> string \<Rightarrow> bool" where
  "js_includes [] t = (t = [])"
| "js_includes (c # cs) t = (prefix t (c # cs) \<or> js_includes cs t)"

text \<open>
  \<^verbatim>\<open>s.split(/\s+/)\<close>: the pieces between maximal runs of white space. A string that
  starts or ends with white space yields an empty first or last piece, and the empty
  string yields one empty piece.
\<close>

function splitWhitespace :: "string \<Rightarrow> string list" where
  "splitWhitespace s =
     (let word = takeWhile (\<lambda>c. \<not> isSpace c) s;
          rest = dropWhile (\<lambda>c. \<not> isSpace c) s
      in if rest = [] then [word] else word # splitWhitespace (dropWhile isSpace rest))"
  by pat_completeness auto
termination
proof (relation "measure length")
  show "wf (measure length)" by simp
next
  fix s :: string and word rest
  assume rest: "rest = dropWhile (\<lambda>c. \<not> isSpace c) s" and ne: "rest \<noteq> []"
  from ne obtain c cs where cs: "rest = c # cs" by (cases rest) auto
  with rest have "isSpace c"
    by (metis hd_dropWhile list.sel(1) ne)
  then have "dropWhile isSpace rest = dropWhile isSpace cs" using cs by simp
  moreover have "length (dropWhile isSpace cs) \<le> length cs" by (rule length_dropWhile_le)
  moreover have "length rest \<le> length s" using rest by (simp add: length_dropWhile_le)
  ultimately show "(dropWhile isSpace rest, s) \<in> measure length" using cs by simp
qed

declare splitWhitespace.simps [simp del]

section \<open>IdentityValidator: \<^verbatim>\<open>validateCompanyUrlMatch\<close> (src/App.tsx)\<close>

definition legalSuffixes :: "string list" where
  "legalSuffixes =
     [''inc'', ''corp'', ''corporation'', ''llc'', ''ltd'', ''limited'', ''company'', ''co'']"

text \<open>
  \<^verbatim>\<open>.replace(/(inc|corp|corporation|llc|ltd|limited|company|co)$/g, '')\<close>: the regular
  expression is tried at each start position from the left; it matches where the rest
  of the string is one of the alternatives, and the match is deleted.
\<close>

fun removeSuffix :: "string \<Rightarrow> string" where
  "removeSuffix [] = []"
| "removeSuffix (c # cs) = (if c # cs \<in> set legalSuffixes then [] else c # removeSuffix cs)"

definition cleanCompanyName :: "string \<Rightarrow> string" where
  "cleanCompanyName companyName =
     removeSuffix
       (filter (\<lambda>c. \<not> isSpace c)
         (filter (\<lambda>c. isLowerAlnum c \<or> isSpace c) (toLowerCase companyName)))"

text \<open>\<^verbatim>\<open>.replace(/^https?:\/\//g, '')\<close> and \<^verbatim>\<open>.replace(/^www\./g, '')\<close>.\<close>

definition removeProtocol :: "string \<Rightarrow> string" where
  "removeProtocol s =
     (if prefix ''https://'' s then drop 8 s
      else if prefix ''http://'' s then drop 7 s else s)"

definition removeWww :: "string \<Rightarrow> string" where
  "removeWww s = (if prefix ''www.'' s then drop 4 s else s)"

text \<open>\<^verbatim>\<open>.split('.')[0]\<close>: the part before the first dot (the whole string without one).\<close>

definition domainPart :: "string \<Rightarrow> string" where
  "domainPart websiteUrl =
     takeWhile (\<lambda>c. c \<noteq> CHR ''.'') (removeWww (removeProtocol (toLowerCase websiteUrl)))"

definition cleanUrl :: "string \<Rightarrow> string" where
  "cleanUrl websiteUrl = filter isLowerAlnum (domainPart websiteUrl)"

text \<open>The loop over \<^verbatim>\<open>companyWords\<close>, which returns at the first word that matches.\<close>

fun anyWordInUrl :: "string \<Rightarrow> string list \<Rightarrow> bool" where
  "anyWordInUrl urlParts [] = False"
| "anyWordInUrl urlParts (word # companyWords) =
     (let cleanWord = filter isLowerAlnum word
      in if 3 \<le> length cleanWord \<and> js_includes urlParts cleanWord then True
         else anyWordInUrl urlParts companyWords)"

definition acronymOf :: "string list \<Rightarrow> string" where
  "acronymOf companyWords = map hd (filter (\<lambda>word. 0 < length word) companyWords)"

definition validateCompanyUrlMatch :: "string \<Rightarrow> string \<Rightarrow> bool" where
  "validateCompanyUrlMatch companyName websiteUrl =
     (if trim companyName = [] \<or> trim websiteUrl = [] then True
      else
        let cleanName = cleanCompanyName companyName;
            urlParts = cleanUrl websiteUrl
        in if cleanName = urlParts then True
           else if 3 \<le> length cleanName \<and> 3 \<le> length urlParts
                   \<and> (js_includes cleanName urlParts \<or> js_includes urlParts cleanName)
           then True
           else
             let companyWords = splitWhitespace (toLowerCase companyName)
             in if anyWordInUrl urlParts companyWords then True
                else if 1 < length companyWords
                        \<and> 2 \<le> length (acronymOf companyWords)
                        \<and> js_includes urlParts (acronymOf companyWords)
                then True
                else False)"

subsection \<open>The matching rule as the specification words it\<close>

text \<open>
  The specification's normalisation of the company name: lower-case it, strip the
  characters that are not alphanumeric, remove white space, and strip one of the
  legal-entity suffixes from the end.
\<close>

definition spec_normalizeName :: "string \<Rightarrow> string" where
  "spec_normalizeName companyName =
     (let s = filter (\<lambda>c. \<not> isSpace c) (filter isLowerAlnum (toLowerCase companyName))
      in case find (\<lambda>x. suffix x s) legalSuffixes of
           None \<Rightarrow> s
         | Some x \<Rightarrow> take (length s - length x) s)"

text \<open>
  A leading scheme is a letter followed by letters, digits, \<^verbatim>\<open>+\<close>, \<^verbatim>\<open>-\<close> and \<^verbatim>\<open>.\<close>, with
  \<^verbatim>\<open>://\<close> after it: \<^verbatim>\<open>http://\<close> and \<^verbatim>\<open>https://\<close>, and \<^verbatim>\<open>ftp://\<close> as well.
\<close>

definition isLowerLetter :: "char \<Rightarrow> bool" where
  "isLowerLetter c = (let n = (of_char c :: nat) in 97 \<le> n \<and> n \<le> 122)"

definition isSchemeChar :: "char \<Rightarrow> bool" where
  "isSchemeChar c = (isLowerAlnum c \<or> c = CHR ''+'' \<or> c = CHR ''-'' \<or> c = CHR ''.'')"

definition spec_scheme :: "string \<Rightarrow> string option" where
  "spec_scheme s =
     (let scheme = takeWhile isSchemeChar s
      in if scheme \<noteq> [] \<and> isLowerLetter (hd scheme)
            \<and> prefix ''://'' (dropWhile isSchemeChar s)
         then Some scheme else None)"

text \<open>
  The specification's normalisation of the URL: lower-case it, strip a leading scheme,
  strip a leading \<^verbatim>\<open>www.\<close>, keep the label before the first dot, and strip the
  characters that are not alphanumeric.
\<close>

definition spec_normalizeUrl :: "string \<Rightarrow> string" where
  "spec_normalizeUrl websiteUrl =
     (let s0 = toLowerCase websiteUrl;
          s1 = (case spec_scheme s0 of
                  None \<Rightarrow> s0
                | Some scheme \<Rightarrow> drop (length scheme + length ''://'') s0);
          s2 = (if prefix ''www.'' s1 then drop (length ''www.'') s1 else s1)
      in filter isLowerAlnum (takeWhile (\<lambda>c. c \<noteq> CHR ''.'') s2))"

text \<open>
  The words of the company name are the non-empty pieces of the lower-cased name between
  white space (the specification's own example matches
  \<^verbatim>\<open>International Business Machines\<close> with \<^verbatim>\<open>ibm\<close>, so words are lower-cased). The
  first letter of a word is the first character of the word stripped of its
  non-alphanumerics, the form of the word that rule (c) uses; a word without an
  alphanumeric character has none. Containment is \<^const>\<open>sublist\<close>.
\<close>

definition spec_words :: "string \<Rightarrow> string list" where
  "spec_words companyName =
     filter (\<lambda>w. w \<noteq> []) (splitWhitespace (toLowerCase companyName))"

definition spec_acronym :: "string \<Rightarrow> string" where
  "spec_acronym companyName =
     map hd (filter (\<lambda>w. w \<noteq> []) (map (filter isLowerAlnum) (spec_words companyName)))"

definition spec_matches :: "string \<Rightarrow> string \<Rightarrow> bool" where
  "spec_matches companyName websiteUrl =
     (let n = spec_normalizeName companyName;
          u = spec_normalizeUrl websiteUrl;
          ws = spec_words companyName;
          acronym = spec_acronym companyName
      in n = u
         \<or> (3 \<le> length n \<and> 3 \<le> length u \<and> (sublist u n \<or> sublist n u))
         \<or> (\<exists>w \<in> set ws. 3 \<le> length (filter isLowerAlnum w)
                \<and> sublist (filter isLowerAlnum w) u)
         \<or> (1 < length ws \<and> 2 \<le> length acronym \<and> sublist acronym u))"

text \<open>An alphanumeric character of either case: \<^verbatim>\<open>[A-Za-z0-9]\<close>.\<close>

definition isAlnum :: "char \<Rightarrow> bool" where
  "isAlnum c =
     (let n = (of_char c :: nat)
      in (65 \<le> n \<and> n \<le> 90) \<or> (97 \<le> n \<and> n \<le> 122) \<or> (48 \<le> n \<and> n \<le> 57))"

section \<open>The recommendation service: data model\<close>

text \<open>
  Modelled from the spec: the declaration of \<^verbatim>\<open>CompanyIntelligence\<close> is in
  \<^verbatim>\<open>./webResearch\<close>, which is not among the sources; the record has the fields the
  specification lists and the service reads.
\<close>

record StockPerformance =
  summary :: string

record CompanyIntelligence =
  companyName :: string
  industry :: string
  businessModel :: string
  techStack :: "string list"
  recentNews :: "string list"
  cloudUsageIndicators :: "string list"
  stockPerformance :: "StockPerformance option"

record CompanyContext =
  companyName :: string
  websiteUrl :: string
  email :: string
  ppa :: bool
  genAI :: bool
  cloudCostConcerns :: bool

record UnitMetric =
  title :: string
  description :: string

text \<open>
  A JavaScript object with optional properties is the list of the properties it has, in
  the order of their creation. Assigning a property replaces its value or appends it.
\<close>

fun setProperty :: "string \<Rightarrow> 'a \<Rightarrow> (string \<times> 'a) list \<Rightarrow> (string \<times> 'a) list" where
  "setProperty name v [] = [(name, v)]"
| "setProperty name v ((name', v') # properties) =
     (if name = name' then (name, v) # properties
      else (name', v') # setProperty name v properties)"

record AIRecommendation =
  unitMetrics :: "UnitMetric list"
  conversationStarters :: "string list"
  conditionalInsights :: "(string \<times> string list) list"

text \<open>
  The value \<^verbatim>\<open>JSON.parse\<close> returns. An object holds each of its property names once.
\<close>

datatype json =
    JNull
  | JBoolean bool
  | JNumber real
  | JString string
  | JArray "json list"
  | JObject "(string \<times> json) list"

text \<open>
  The service throws \<^verbatim>\<open>Error\<close> objects that differ by their message only, and lets the
  rejections of the services it awaits pass. A constructor names the place of the throw
  after the specification's taxonomy; its argument is the message.
\<close>

datatype error =
    CredentialError string
  | IntelligenceGatheringError string
  | ProviderCallError string
  | ProviderResponseError string
  | ParseError string
  | SchemaValidationError string
  | TypeError string

fun message :: "error \<Rightarrow> string" where
  "message (CredentialError m) = m"
| "message (IntelligenceGatheringError m) = m"
| "message (ProviderCallError m) = m"
| "message (ProviderResponseError m) = m"
| "message (ParseError m) = m"
| "message (SchemaValidationError m) = m"
| "message (TypeError m) = m"

text \<open>The three values read from \<^verbatim>\<open>import.meta.env\<close>; \<open>None\<close> is \<^verbatim>\<open>undefined\<close>.\<close>

record environment =
  VITE_OPENAI_API_KEY :: "string option"
  VITE_AWS_ACCESS_KEY_ID :: "string option"
  VITE_AWS_SECRET_ACCESS_KEY :: "string option"

text \<open>
  The services the pipeline awaits, each a function from its request to a failure (the
  text of the rejection) or a response: \<^verbatim>\<open>WebResearchService.gatherCompanyIntelligence\<close>,
  \<^verbatim>\<open>BedrockService.invokeClaude\<close>, and \<^verbatim>\<open>openai.chat.completions.create\<close> with its
  fixed model, system message and sampling configuration, answering with
  \<^verbatim>\<open>choices[0]?.message?.content\<close> (\<open>None\<close> when that is undefined or null).
  \<^verbatim>\<open>JSON.parse\<close> is a parameter as well: it returns the parsed value, or the text of
  the \<^verbatim>\<open>SyntaxError\<close> it throws.
\<close>

record services =
  gatherCompanyIntelligence :: "string \<Rightarrow> string \<Rightarrow> string + CompanyIntelligence"
  invokeClaude :: "string \<Rightarrow> string + string"
  createChatCompletion :: "string \<Rightarrow> string + string option"
  jsonParse :: "string \<Rightarrow> string + json"

text \<open>
  What a run does besides returning: the lines it writes to the console and the requests
  it sends, in order; and the static field \<^verbatim>\<open>openai\<close> (\<open>True\<close> once the client is
  constructed).
\<close>

datatype event =
    ConsoleLog "string list"
  | ConsoleWarn "string list"
  | ConsoleError "string list"
  | GatherIntelligenceRequest string string
  | InvokeClaudeRequest string
  | ChatCompletionRequest string

record world =
  openai :: bool
  events :: "event list"

definition emit :: "event \<Rightarrow> world \<Rightarrow> world" where
  "emit e w = w\<lparr>events := events w @ [e]\<rparr>"

section \<open>Credentials: \<^verbatim>\<open>isValidApiKey\<close>\<close>

text \<open>
  \<^verbatim>\<open>key && key.trim() !== '' && !key.includes('your_') && key.length > 20\<close>, read as a
  condition: \<^verbatim>\<open>undefined\<close> and the empty string are falsy.
\<close>

definition isValidApiKey :: "string option \<Rightarrow> bool" where
  "isValidApiKey key =
     (case key of
        None \<Rightarrow> False
      | Some k \<Rightarrow> k \<noteq> [] \<and> trim k \<noteq> [] \<and> \<not> js_includes k ''your_'' \<and> 20 < length k)"

subsection \<open>The credential check as the specification words it\<close>

text \<open>
  A credential is plausible when it is defined, is not blank, does not contain the
  placeholder marker \<^verbatim>\<open>your_\<close>, and is longer than 20 characters.
\<close>

definition spec_plausible :: "string option \<Rightarrow> bool" where
  "spec_plausible key =
     (case key of
        None \<Rightarrow> False
      | Some k \<Rightarrow> (\<exists>c\<in>set k. \<not> isSpace c) \<and> \<not> sublist ''your_'' k \<and> 20 < length k)"

section \<open>PromptBuilder: \<^verbatim>\<open>buildEnhancedPrompt\<close>\<close>

text \<open>
  The template literals of the source, cut at their line ends; a placeholder is the term
  between two pieces. \<^verbatim>\<open>xs.join(sep)\<close> is \<open>join xs sep\<close>.
\<close>

fun join :: "string list \<Rightarrow> string \<Rightarrow> string" where
  "join [] sep = []"
| "join [x] sep = x"
| "join (x # y # ys) sep = x @ sep @ join (y # ys) sep"

text \<open>The initial value of \<^verbatim>\<open>prompt\<close> (lines 53 to 94).\<close>

definition promptIntroduction ::
  "CompanyContext \<Rightarrow> CompanyIntelligence \<Rightarrow> string \<Rightarrow> string" where
  \<open>promptIntroduction ctx intelligence industryAnalysis =
     (let companyName = CompanyContext.companyName ctx;
          websiteUrl = CompanyContext.websiteUrl ctx;
          ppa = CompanyContext.ppa ctx;
          genAI = CompanyContext.genAI ctx;
          cloudCostConcerns = CompanyContext.cloudCostConcerns ctx
      in
       ''You are a FinOps strategy assistant with access to current company ''
       @ ''intelligence and industry analysis.\<newline>''
       @ ''\<newline>''
       @ ''Company Information:\<newline>''
       @ ''- Company Name: ''
       @ companyName
       @ ''\<newline>''
       @ ''- Website: ''
       @ (if websiteUrl = [] then ''Not provided'' else websiteUrl)
       @ ''\<newline>''
       @ ''- Industry: ''
       @ industry intelligence
       @ ''\<newline>''
       @ ''- Business Model: ''
       @ businessModel intelligence
       @ ''\<newline>''
       @ ''- Tech Stack: ''
       @ join (techStack intelligence) '', ''
       @ ''\<newline>''
       @ ''\<newline>''
       @ ''Recent Company Intelligence:\<newline>''
       @ ''- Recent News: ''
       @ join (recentNews intelligence) ''; ''
       @ ''\<newline>''
       @ ''- Cloud Usage Patterns: ''
       @ join (cloudUsageIndicators intelligence) ''; ''
       @ ''\<newline>''
       @ (case stockPerformance intelligence of
          None \<Rightarrow> []
        | Some performance \<Rightarrow> ''- Stock Performance: '' @ summary performance)
       @ ''\<newline>''
       @ ''\<newline>''
       @ ''Industry Analysis:\<newline>''
       @ industryAnalysis
       @ ''\<newline>''
       @ ''\<newline>''
       @ ''Focus Areas Selected:\<newline>''
       @ ''- Private Pricing Agreement (PPA): ''
       @ (if ppa then ''Yes'' else ''No'')
       @ ''\<newline>''
       @ ''- Generative AI: ''
       @ (if genAI then ''Yes'' else ''No'')
       @ ''\<newline>''
       @ ''- Cloud Cost Concerns: ''
       @ (if cloudCostConcerns then ''Yes'' else ''No'')
       @ ''\<newline>''
       @ ''\<newline>''
       @ ''Please provide a structured response with the following sections:\<newline>''
       @ ''\<newline>''
       @ ''1. **Unit Cost Metrics (4-5 recommendations)**\<newline>''
       @ ''   - Suggest 4-5 relevant unit cost metrics tailored to ''
       @ companyName
       @ '''s business\<newline>''
       @ ''   - For each metric, provide a clear title and 2-3 sentence explanation ''
       @ ''that includes:\<newline>''
       @ ''     * Why this metric matters for their specific business model\<newline>''
       @ ''     * How it connects to business value and decision-making\<newline>''
       @ ''     * What insights it can reveal about cost efficiency\<newline>''
       @ ''   - Consider the company's likely industry and business model\<newline>''
       @ ''   - Make recommendations specific and actionable\<newline>''
       @ ''\<newline>''
       @ ''2. **FinOps Conversation Starters (3 questions)**\<newline>''
       @ ''   - Provide 3 strategic, open-ended questions to open FinOps discussions ''
       @ ''with ''
       @ companyName
       @ ''\<newline>''
       @ ''   - Each question should be 2-3 sentences that include context about why ''
       @ ''this matters for their business\<newline>''
       @ ''   - Focus on usage-based cost transparency, business value alignment, ''
       @ ''and strategic decision-making\<newline>''
       @ ''   - Include specific examples or scenarios relevant to their industry ''
       @ ''and business model\<newline>''
       @ ''   - Keep tone consultative and educational, not salesy\<newline>''
       @ ''   - Make questions thought-provoking and discussion-worthy\<newline>''
       @ ''\<newline>''
       @ ''3. **Conditional Insights (only if applicable)**'')\<close>

text \<open>The three paragraphs appended for the selected focus areas (lines 96 to 109).\<close>

definition ppaInstruction :: "string \<Rightarrow> string" where
  \<open>ppaInstruction = (\<lambda>companyName.
       ''\<newline>''
       @ ''   - **PPA Discussion Starters**: 3 strategic questions about private ''
       @ ''pricing agreements and committed use optimization for ''
       @ companyName
       @ ''. Each should be 2-3 sentences explaining the context and why PPAs matter ''
       @ ''for their specific situation, including potential savings scenarios and ''
       @ ''commitment strategies.'')\<close>

definition genAIInstruction :: "string \<Rightarrow> string" where
  \<open>genAIInstruction = (\<lambda>companyName.
       ''\<newline>''
       @ ''   - **GenAI-Specific FinOps Insights**: 3 strategic questions about GPU ''
       @ ''costs, model training, and AI infrastructure optimization for ''
       @ companyName
       @ ''. Each should be 2-3 sentences providing context about GenAI cost ''
       @ ''patterns, optimization opportunities, and how to align AI spending with ''
       @ ''business outcomes.'')\<close>

definition cloudCostInstruction :: "string \<Rightarrow> string" where
  \<open>cloudCostInstruction = (\<lambda>companyName.
       ''\<newline>''
       @ ''   - **Cloud Cost Risk Signals**: 3 strategic questions about cost ''
       @ ''visibility, budget overruns, and cost optimization for ''
       @ companyName
       @ ''. Each should be 2-3 sentences explaining common cost risk patterns, ''
       @ ''warning signs to watch for, and proactive strategies for cost management.'')\<close>

text \<open>
  The output-schema specification appended last (lines 111 to 133), in three pieces: the
  text up to the value of \<^verbatim>\<open>"conditionalInsights"\<close>, that value from its opening
  to its closing brace (lines 126 to 130), and the rest.
\<close>

definition schemaOpening :: "string \<Rightarrow> string" where
  \<open>schemaOpening = (\<lambda>companyName.
       ''\<newline>''
       @ ''\<newline>''
       @ ''Please return your response as a valid JSON object with this exact ''
       @ ''structure:\<newline>''
       @ ''{\<newline>''
       @ ''  "unitMetrics": [\<newline>''
       @ ''    {\<newline>''
       @ ''      "title": "Cost per [specific unit for ''
       @ companyName
       @ '']",\<newline>''
       @ ''      "description": "Detailed explanation of why this metric matters for ''
       @ ''their business, how it connects to business value, and what cost ''
       @ ''efficiency insights it reveals"\<newline>''
       @ ''    }\<newline>''
       @ ''  ],\<newline>''
       @ ''  "conversationStarters": [\<newline>''
       @ ''    "Strategic question 1 for ''
       @ companyName
       @ ''",\<newline>''
       @ ''    "Strategic question 2 for ''
       @ companyName
       @ ''",\<newline>''
       @ ''    "Strategic question 3 for ''
       @ companyName
       @ ''"\<newline>''
       @ ''  ],\<newline>''
       @ ''  "conditionalInsights": '')\<close>

definition conditionalInsightsSchema :: "bool \<Rightarrow> bool \<Rightarrow> bool \<Rightarrow> string" where
  \<open>conditionalInsightsSchema = (\<lambda>ppa genAI cloudCostConcerns.
       ''{\<newline>''
       @ ''    ''
       @ (if ppa then ''"ppa": ["PPA question 1", "PPA question 2", "PPA question 3"],'' else [])
       @ ''\<newline>''
       @ ''    ''
       @ (if genAI then ''"genAI": ["GenAI question 1", "GenAI question 2", "GenAI question 3"],'' else [])
       @ ''\<newline>''
       @ ''    ''
       @ (if cloudCostConcerns
        then ''"cloudCostConcerns": ["Cost concern 1", "Cost concern 2", "Cost concern 3"]''
        else [])
       @ ''\<newline>''
       @ ''  }'')\<close>

definition schemaClosing :: "string \<Rightarrow> string" where
  \<open>schemaClosing = (\<lambda>companyName.
       ''\<newline>''
       @ ''}\<newline>''
       @ ''\<newline>''
       @ ''Make all recommendations highly specific to ''
       @ companyName
       @ '' and their likely business model. Avoid generic advice.'')\<close>

definition buildEnhancedPrompt ::
  "CompanyContext \<Rightarrow> CompanyIntelligence \<Rightarrow> string \<Rightarrow> string" where
  "buildEnhancedPrompt ctx intelligence industryAnalysis =
     (let companyName = CompanyContext.companyName ctx;
          ppa = CompanyContext.ppa ctx;
          genAI = CompanyContext.genAI ctx;
          cloudCostConcerns = CompanyContext.cloudCostConcerns ctx;
          prompt0 = promptIntroduction ctx intelligence industryAnalysis;
          prompt1 = (if ppa then prompt0 @ ppaInstruction companyName else prompt0);
          prompt2 = (if genAI then prompt1 @ genAIInstruction companyName else prompt1);
          prompt3 = (if cloudCostConcerns then prompt2 @ cloudCostInstruction companyName
                     else prompt2)
      in prompt3 @ schemaOpening companyName
           @ conditionalInsightsSchema ppa genAI cloudCostConcerns
           @ schemaClosing companyName)"

section \<open>IndustryAnalyzer: the texts of \<^verbatim>\<open>getIndustryAnalysis\<close>\<close>

definition industryPrompt :: "CompanyIntelligence \<Rightarrow> string" where
  \<open>industryPrompt intelligence =
       ''Analyze this company's industry context and provide insights for FinOps ''
       @ ''strategy:\<newline>''
       @ ''\<newline>''
       @ ''Company: ''
       @ CompanyIntelligence.companyName intelligence
       @ ''\<newline>''
       @ ''Industry: ''
       @ industry intelligence
       @ ''\<newline>''
       @ ''Business Model: ''
       @ businessModel intelligence
       @ ''\<newline>''
       @ ''Tech Stack: ''
       @ join (techStack intelligence) '', ''
       @ ''\<newline>''
       @ ''Recent News: ''
       @ join (recentNews intelligence) ''; ''
       @ ''\<newline>''
       @ ''Cloud Usage Indicators: ''
       @ join (cloudUsageIndicators intelligence) ''; ''
       @ ''\<newline>''
       @ (case stockPerformance intelligence of
          None \<Rightarrow> []
        | Some performance \<Rightarrow> ''Stock Performance: '' @ summary performance)
       @ ''\<newline>''
       @ ''\<newline>''
       @ ''Provide a 2-3 sentence analysis of their likely cloud cost patterns, ''
       @ ''infrastructure needs, and FinOps priorities based on this context.''\<close>

text \<open>The sentence returned when the secondary provider fails (line 306).\<close>

definition industryFallback :: "CompanyIntelligence \<Rightarrow> string" where
  \<open>industryFallback intelligence =
       ''Based on ''
       @ CompanyIntelligence.companyName intelligence
       @ '''s ''
       @ industry intelligence
       @ '' industry focus and ''
       @ businessModel intelligence
       @ '' business model, they likely have significant cloud infrastructure needs ''
       @ ''with potential for cost optimization through unit economics and ''
       @ ''usage-based monitoring.''\<close>

section \<open>FallbackRecommendationGenerator: \<^verbatim>\<open>getFallbackRecommendations\<close>\<close>

text \<open>The literal lists of the source, each a function of \<^verbatim>\<open>companyName\<close>.\<close>

definition fallbackUnitMetrics :: "string \<Rightarrow> UnitMetric list" where
  \<open>fallbackUnitMetrics = (\<lambda>companyName.
     [\<lparr>title =
          ''Cost per ''
          @ companyName
          @ '' customer transaction'',
        description =
          ''Monitor the total infrastructure cost for each customer transaction or ''
          @ ''core business action at ''
          @ companyName
          @ ''. This metric directly connects cloud spending to revenue-generating ''
          @ ''activities, helping you understand the true cost of serving customers and ''
          @ ''identify optimization opportunities that improve profit margins. It's ''
          @ ''essential for maintaining healthy unit economics as you scale.''\<rparr>,
      \<lparr>title =
          ''Cost per ''
          @ companyName
          @ '' service delivery'',
        description =
          ''Track infrastructure costs associated with delivering your core product ''
          @ ''or service to customers. For ''
          @ companyName
          @ '', this means understanding how much it costs to fulfill each customer ''
          @ ''request, process each order, or deliver each unit of value. This ''
          @ ''business-focused metric helps align technical spending with customer ''
          @ ''satisfaction and operational efficiency.''\<rparr>,
      \<lparr>title =
          ''Cost per ''
          @ companyName
          @ '' customer acquisition'',
        description =
          ''Measure the infrastructure costs associated with onboarding and serving ''
          @ ''new customers during their first month at ''
          @ companyName
          @ ''. This metric helps you understand the true cost of growth and ensures ''
          @ ''that customer acquisition costs remain sustainable. It's particularly ''
          @ ''valuable for identifying whether your platform can profitably scale with ''
          @ ''new customer growth.''\<rparr>,
      \<lparr>title =
          ''Cost per ''
          @ companyName
          @ '' business outcome'',
        description =
          ''Track infrastructure costs per key business result - whether that's ''
          @ ''completed orders, successful deliveries, processed payments, or other ''
          @ ''core value-creating activities for ''
          @ companyName
          @ ''. This metric ensures that technology spending directly supports business ''
          @ ''objectives and helps identify which operational processes are most ''
          @ ''cost-effective to scale.''\<rparr>,
      \<lparr>title =
          ''Cost per ''
          @ companyName
          @ '' customer success milestone'',
        description =
          ''Monitor infrastructure costs for key customer journey milestones - from ''
          @ ''initial signup through product adoption and ongoing engagement. For ''
          @ companyName
          @ '', this helps identify which stages of the customer lifecycle are most ''
          @ ''expensive to support and where optimization efforts will have the biggest ''
          @ ''impact on customer lifetime value and retention.''\<rparr>])\<close>

definition fallbackConversationStarters :: "string \<Rightarrow> string list" where
  \<open>fallbackConversationStarters = (\<lambda>companyName.
     [''How does ''
        @ companyName
        @ '' ensure infrastructure costs scale proportionally with user growth and ''
        @ ''product value? Many companies find that as they scale, their cloud costs ''
        @ ''grow faster than revenue, often due to inefficient resource allocation or ''
        @ ''lack of usage-based monitoring. Understanding this relationship early ''
        @ ''helps prevent costly surprises and enables data-driven scaling decisions ''
        @ ''that align with your business model.'',
      ''Are your development teams at ''
        @ companyName
        @ '' empowered with cost visibility to make efficient architecture decisions? ''
        @ ''When engineers can see the cost impact of their choices in real-time, ''
        @ ''they naturally optimize for efficiency without sacrificing performance. ''
        @ ''This visibility often leads to 20-30% cost reductions through better ''
        @ ''resource selection and usage patterns, especially important as your team ''
        @ ''grows.'',
      ''Would unit cost metrics help ''
        @ companyName
        @ '' align engineering priorities with business profitability goals? By ''
        @ ''connecting infrastructure spending to business outcomes like customer ''
        @ ''acquisition cost or revenue per user, teams can make more strategic ''
        @ ''decisions about where to invest their optimization efforts and which ''
        @ ''features truly drive value for your specific market and customer base.''])\<close>

definition ppaInsights :: "string \<Rightarrow> string list" where
  \<open>ppaInsights = (\<lambda>companyName.
     [''How might ''
        @ companyName
        @ '' leverage committed use discounts and reserved instances to reduce ''
        @ ''baseline infrastructure costs? Understanding your predictable workload ''
        @ ''patterns can unlock significant savings through AWS Enterprise Discount ''
        @ ''Programs or similar commitment-based pricing models. This is especially ''
        @ ''valuable for companies with steady growth trajectories.'',
      ''What's ''
        @ companyName
        @ '''s strategy for balancing flexibility with cost savings in your private ''
        @ ''pricing agreements? While PPAs can offer substantial discounts, they ''
        @ ''require careful capacity planning and usage forecasting. The key is ''
        @ ''identifying which workloads are predictable enough to commit to while ''
        @ ''maintaining agility for growth and experimentation.'',
      ''How does ''
        @ companyName
        @ '' measure and optimize the ROI of your committed cloud spending? Tracking ''
        @ ''metrics like commitment utilization rates and cost per committed unit ''
        @ ''helps ensure you're maximizing the value of your private pricing ''
        @ ''agreements. This becomes increasingly important as your infrastructure ''
        @ ''needs evolve and scale.''])\<close>

definition genAIInsights :: "string \<Rightarrow> string list" where
  \<open>genAIInsights = (\<lambda>companyName.
     [''How is ''
        @ companyName
        @ '' managing the unpredictable cost patterns of GPU-intensive AI workloads? ''
        @ ''GenAI applications often have highly variable compute needs, making ''
        @ ''traditional cost forecasting challenging. Understanding cost per ''
        @ ''inference, training job, or model iteration helps teams optimize both ''
        @ ''performance and spending in this rapidly evolving space.'',
      ''What's ''
        @ companyName
        @ '''s approach to balancing model performance with infrastructure costs for ''
        @ ''AI features? The choice between different model sizes, inference methods, ''
        @ ''and hosting strategies can dramatically impact both user experience and ''
        @ ''cloud spending. Tracking unit costs helps teams make informed trade-offs ''
        @ ''between capability and cost-effectiveness.'',
      ''How does ''
        @ companyName
        @ '' optimize costs across the AI development lifecycle from experimentation ''
        @ ''to production? GenAI projects often involve significant compute costs for ''
        @ ''data processing, model training, fine-tuning, and inference. ''
        @ ''Understanding the cost structure of each phase helps teams allocate ''
        @ ''resources efficiently and identify optimization opportunities throughout ''
        @ ''the development process.''])\<close>

definition cloudCostConcernsInsights :: "string \<Rightarrow> string list" where
  \<open>cloudCostConcernsInsights = (\<lambda>companyName.
     [''What early warning signals does ''
        @ companyName
        @ '' monitor to prevent cloud cost overruns? Implementing automated alerts ''
        @ ''for unusual spending patterns, resource utilization thresholds, and ''
        @ ''budget variance can help teams catch cost issues before they become ''
        @ ''significant problems. This proactive approach is essential for ''
        @ ''maintaining predictable unit economics.'',
      ''How does ''
        @ companyName
        @ '' ensure cost visibility and accountability across different teams and ''
        @ ''projects? Without proper cost allocation and chargeback mechanisms, it's ''
        @ ''difficult to identify which initiatives are driving cloud spending and ''
        @ ''whether that spending is justified by business value. Clear cost ''
        @ ''attribution helps teams make more responsible resource decisions.'',
      ''What's ''
        @ companyName
        @ '''s strategy for rightsizing resources and eliminating waste in your cloud ''
        @ ''infrastructure? Regular audits of unused resources, oversized instances, ''
        @ ''and inefficient architectures often reveal 15-25% cost reduction ''
        @ ''opportunities. The key is establishing processes to continuously optimize ''
        @ ''resource allocation as your application and usage patterns evolve.''])\<close>

text \<open>
  \<^verbatim>\<open>baseRecommendations\<close> starts with an empty \<^verbatim>\<open>conditionalInsights\<close> object; each
  selected focus area then assigns its property.
\<close>

definition getFallbackRecommendations :: "CompanyContext \<Rightarrow> AIRecommendation" where
  "getFallbackRecommendations ctx =
     (let companyName = CompanyContext.companyName ctx;
          ppa = CompanyContext.ppa ctx;
          genAI = CompanyContext.genAI ctx;
          cloudCostConcerns = CompanyContext.cloudCostConcerns ctx;
          baseRecommendations =
            \<lparr>unitMetrics = fallbackUnitMetrics companyName,
             conversationStarters = fallbackConversationStarters companyName,
             conditionalInsights = []\<rparr>;
          r1 = (if ppa
                then baseRecommendations\<lparr>conditionalInsights :=
                       setProperty ''ppa'' (ppaInsights companyName)
                         (conditionalInsights baseRecommendations)\<rparr>
                else baseRecommendations);
          r2 = (if genAI
                then r1\<lparr>conditionalInsights :=
                       setProperty ''genAI'' (genAIInsights companyName)
                         (conditionalInsights r1)\<rparr>
                else r1);
          r3 = (if cloudCostConcerns
                then r2\<lparr>conditionalInsights :=
                       setProperty ''cloudCostConcerns'' (cloudCostConcernsInsights companyName)
                         (conditionalInsights r2)\<rparr>
                else r2)
      in r3)"

section \<open>IndustryAnalyzer: \<^verbatim>\<open>getIndustryAnalysis\<close>\<close>

text \<open>
  The prompt is built before the \<^verbatim>\<open>try\<close>; the \<^verbatim>\<open>catch\<close> writes a warning and returns
  the fallback sentence.
\<close>

definition getIndustryAnalysis ::
  "services \<Rightarrow> CompanyIntelligence \<Rightarrow> world \<Rightarrow> (error + string) \<times> world" where
  "getIndustryAnalysis svc intelligence w =
     (let prompt = industryPrompt intelligence;
          w1 = emit (InvokeClaudeRequest prompt) w
      in case invokeClaude svc prompt of
           Inr analysis \<Rightarrow> (Inr analysis, w1)
         | Inl failure \<Rightarrow>
             (Inr (industryFallback intelligence),
              emit (ConsoleWarn [''Bedrock analysis failed, using fallback:'', failure]) w1))"

section \<open>RecommendationSynthesizer: \<^verbatim>\<open>generateRecommendations\<close>\<close>

text \<open>\<^verbatim>\<open>getOpenAI\<close>: the client is constructed once, after a check of the key.\<close>

definition getOpenAI :: "environment \<Rightarrow> world \<Rightarrow> (error + unit) \<times> world" where
  "getOpenAI env w =
     (if \<not> openai w then
        (if \<not> isValidApiKey (VITE_OPENAI_API_KEY env)
         then (Inl (CredentialError
                 (''Please configure a valid OpenAI API key in your .env.local file. ''
                  @ ''Get your API key from https://platform.openai.com/api-keys'')), w)
         else (Inr (), w\<lparr>openai := True\<rparr>))
      else (Inr (), w))"

text \<open>
  \<^verbatim>\<open>.replace(/```json\n?/g, '')\<close> and \<^verbatim>\<open>.replace(/```\n?/g, '')\<close>: every occurrence of the
  fence, with the line feed after it if there is one, is deleted, from left to right.
\<close>

definition dropLineFeed :: "string \<Rightarrow> string" where
  "dropLineFeed s = (case s of [] \<Rightarrow> [] | c # cs \<Rightarrow> if c = CHR 0x0A then cs else s)"

function removeFence :: "string \<Rightarrow> string \<Rightarrow> string" where
  "removeFence fence s =
     (if s = [] then []
      else if fence \<noteq> [] \<and> prefix fence s
      then removeFence fence (dropLineFeed (drop (length fence) s))
      else hd s # removeFence fence (tl s))"
  by pat_completeness auto
termination
proof (relation "measure (\<lambda>(fence, s). length s)")
  show "wf (measure (\<lambda>(fence, s). length s))" by simp
next
  fix fence s :: string
  assume "s \<noteq> []" and "fence \<noteq> [] \<and> prefix fence s"
  then have "length (drop (length fence) s) < length s" by simp
  moreover have "length (dropLineFeed t) \<le> length t" for t
    by (simp add: dropLineFeed_def split: list.split)
  ultimately have "length (dropLineFeed (drop (length fence) s)) < length s"
    by (rule le_less_trans [rotated])
  then show "((fence, dropLineFeed (drop (length fence) s)), (fence, s))
      \<in> measure (\<lambda>(fence, s). length s)" by simp
next
  fix fence s :: string
  assume "s \<noteq> []"
  then show "((fence, tl s), (fence, s)) \<in> measure (\<lambda>(fence, s). length s)" by simp
qed

declare removeFence.simps [simp del]

definition cleanResponse :: "string \<Rightarrow> string" where
  \<open>cleanResponse response = trim (removeFence ''```'' (removeFence ''```json'' response))\<close>

text \<open>
  The structure check \<^verbatim>\<open>!recommendations.unitMetrics || !recommendations.conversationStarters\<close>.
  Reading a property of \<^verbatim>\<open>null\<close> throws a \<^verbatim>\<open>TypeError\<close>; an object gives the
  property's value or \<^verbatim>\<open>undefined\<close> (\<open>None\<close>); a boolean, a number, a string and an
  array have no property of these two names. Falsy are \<^verbatim>\<open>undefined\<close>, \<^verbatim>\<open>null\<close>,
  \<^verbatim>\<open>false\<close>, zero and the empty string.
\<close>

definition property :: "json \<Rightarrow> string \<Rightarrow> error + json option" where
  "property v name =
     (case v of
        JNull \<Rightarrow>
          Inl (TypeError (''Cannot read properties of null (reading '' @ [CHR 0x27] @ name
                 @ [CHR 0x27] @ '')''))
      | JObject properties \<Rightarrow> Inr (map_of properties name)
      | _ \<Rightarrow> Inr None)"

fun truthy :: "json option \<Rightarrow> bool" where
  "truthy None = False"
| "truthy (Some JNull) = False"
| "truthy (Some (JBoolean b)) = b"
| "truthy (Some (JNumber x)) = (x \<noteq> 0)"
| "truthy (Some (JString s)) = (s \<noteq> [])"
| "truthy (Some (JArray xs)) = True"
| "truthy (Some (JObject properties)) = True"

definition validateStructure :: "json \<Rightarrow> error + json" where
  "validateStructure recommendations =
     (case property recommendations ''unitMetrics'' of
        Inl e \<Rightarrow> Inl e
      | Inr metrics \<Rightarrow>
          if \<not> truthy metrics
          then Inl (SchemaValidationError ''Invalid response structure from AI'')
          else (case property recommendations ''conversationStarters'' of
                  Inl e \<Rightarrow> Inl e
                | Inr starters \<Rightarrow>
                    if \<not> truthy starters
                    then Inl (SchemaValidationError ''Invalid response structure from AI'')
                    else Inr recommendations))"

text \<open>Lines 203 to 219: clean and parse the response, then check its structure.\<close>

definition parseRecommendations :: "services \<Rightarrow> string \<Rightarrow> world \<Rightarrow> (error + json) \<times> world" where
  "parseRecommendations svc response w =
     (case jsonParse svc (cleanResponse response) of
        Inl parseError \<Rightarrow>
          (Inl (ParseError (''Failed to parse AI response as JSON: '' @ parseError)),
           emit (ConsoleError [''JSON parse error:'', parseError, ''Raw response:'', response]) w)
      | Inr recommendations \<Rightarrow> (validateStructure recommendations, w))"

text \<open>Lines 175 to 219: the call of the primary provider and what follows it.\<close>

definition requestRecommendations ::
  "environment \<Rightarrow> services \<Rightarrow> CompanyContext \<Rightarrow> CompanyIntelligence \<Rightarrow> string \<Rightarrow> world
    \<Rightarrow> (error + json) \<times> world" where
  "requestRecommendations env svc ctx intelligence industryAnalysis w =
     (let w1 = emit (ConsoleLog [''Generating recommendations with OpenAI...'']) w
      in case getOpenAI env w1 of
           (Inl e, w2) \<Rightarrow> (Inl e, w2)
         | (Inr client, w2) \<Rightarrow>
             (let prompt = buildEnhancedPrompt ctx intelligence industryAnalysis;
                  w3 = emit (ChatCompletionRequest prompt) w2
              in case createChatCompletion svc prompt of
                   Inl failure \<Rightarrow> (Inl (ProviderCallError failure), w3)
                 | Inr content \<Rightarrow>
                     (let w4 = emit (ConsoleLog [''OpenAI raw response:'',
                                       (case content of None \<Rightarrow> ''undefined'' | Some r \<Rightarrow> r)]) w3
                      in (case content of
                            None \<Rightarrow> (Inl (ProviderResponseError ''No response from OpenAI''), w4)
                          | Some response \<Rightarrow>
                              if response = []
                              then (Inl (ProviderResponseError ''No response from OpenAI''), w4)
                              else parseRecommendations svc response w4))))"

text \<open>The object logged with \<^verbatim>\<open>API Key Status:\<close> (lines 145 to 150), one text per field.\<close>

definition keyPreview :: "string option \<Rightarrow> string" where
  "keyPreview key =
     (case key of
        None \<Rightarrow> ''Not set''
      | Some k \<Rightarrow> if k = [] then ''Not set'' else take 10 k @ ''...'')"

definition keyStatus :: "environment \<Rightarrow> bool \<Rightarrow> bool \<Rightarrow> event" where
  "keyStatus env hasValidOpenAI hasValidAWS =
     ConsoleLog
       [''API Key Status:'',
        ''openAI: '' @ (if hasValidOpenAI then ''Valid'' else ''Invalid/Missing''),
        ''aws: '' @ (if hasValidAWS then ''Valid'' else ''Invalid/Missing''),
        ''openAIKey: '' @ keyPreview (VITE_OPENAI_API_KEY env),
        ''awsKeyId: '' @ keyPreview (VITE_AWS_ACCESS_KEY_ID env)]"

text \<open>The body of the outer \<^verbatim>\<open>try\<close> (lines 140 to 219).\<close>

definition generateBody ::
  "environment \<Rightarrow> services \<Rightarrow> CompanyContext \<Rightarrow> world \<Rightarrow> (error + json) \<times> world" where
  "generateBody env svc ctx w =
     (let hasValidOpenAI = isValidApiKey (VITE_OPENAI_API_KEY env);
          hasValidAWS = (isValidApiKey (VITE_AWS_ACCESS_KEY_ID env)
                         \<and> isValidApiKey (VITE_AWS_SECRET_ACCESS_KEY env));
          w1 = emit (keyStatus env hasValidOpenAI hasValidAWS) w
      in if \<not> hasValidOpenAI
         then (Inl (CredentialError
                 (''OpenAI API key is invalid or missing. Please check your .env.local file. ''
                  @ ''Current key: ''
                  @ (case VITE_OPENAI_API_KEY env of
                       None \<Rightarrow> ''Not set''
                     | Some k \<Rightarrow> if k = [] then ''Not set'' else ''Set but invalid''))), w1)
         else
           let w2 = (if \<not> hasValidAWS
                     then emit (ConsoleWarn
                            [''AWS credentials invalid, proceeding with OpenAI only'']) w1
                     else w1);
               w3 = emit (ConsoleLog [''Gathering company intelligence...'']) w2;
               w4 = emit (GatherIntelligenceRequest (CompanyContext.companyName ctx)
                            (CompanyContext.websiteUrl ctx)) w3
           in case gatherCompanyIntelligence svc (CompanyContext.companyName ctx)
                     (CompanyContext.websiteUrl ctx) of
                Inl failure \<Rightarrow> (Inl (IntelligenceGatheringError failure), w4)
              | Inr intelligence \<Rightarrow>
                  (case (if hasValidAWS
                         then getIndustryAnalysis svc intelligence
                                (emit (ConsoleLog [''Analyzing with Bedrock Claude...'']) w4)
                         else (Inr [], w4)) of
                     (Inl e, w5) \<Rightarrow> (Inl e, w5)
                   | (Inr industryAnalysis, w5) \<Rightarrow>
                       requestRecommendations env svc ctx intelligence industryAnalysis
                         (emit (ConsoleLog [''Industry analysis:'', industryAnalysis]) w5)))"

text \<open>The outer \<^verbatim>\<open>catch\<close> writes the error to the console and throws it again.\<close>

definition generateRecommendations ::
  "environment \<Rightarrow> services \<Rightarrow> CompanyContext \<Rightarrow> world \<Rightarrow> (error + json) \<times> world" where
  "generateRecommendations env svc ctx w =
     (case generateBody env svc ctx w of
        (Inl e, w') \<Rightarrow>
          (Inl e, emit (ConsoleError [''Error generating AI recommendations:'', message e]) w')
      | (Inr recommendations, w') \<Rightarrow> (Inr recommendations, w'))"

section \<open>Well-formed JSON text\<close>

text \<open>
  The prompt asks for \<^verbatim>\<open>a valid JSON object with this exact structure\<close>. The schema
  text is built from objects, arrays and string literals; the checker below accepts
  exactly the well-formed JSON texts built from these (a number or a literal name is
  refused). It reads the text as tokens and runs the JSON grammar as a pushdown
  automaton over them.
\<close>

datatype token =
    LeftBrace | RightBrace | LeftBracket | RightBracket | Colon | Comma
  | StringToken string
  | Unterminated
  | Other char

text \<open>The lexer is outside a string literal, inside one, or after a backslash inside one.\<close>

datatype lexer = Outside | Inside string | Escaped string

definition punctuation :: "char \<Rightarrow> token" where
  "punctuation c =
     (if c = CHR ''{'' then LeftBrace else if c = CHR ''}'' then RightBrace
      else if c = CHR ''['' then LeftBracket else if c = CHR '']'' then RightBracket
      else if c = CHR '':'' then Colon else if c = CHR '','' then Comma
      else Other c)"

text \<open>JSON white space: space, tab, line feed, carriage return.\<close>

definition jsonSpace :: "char \<Rightarrow> bool" where
  "jsonSpace c = (c = CHR '' '' \<or> c = CHR 0x09 \<or> c = CHR 0x0A \<or> c = CHR 0x0D)"

fun tokens :: "lexer \<Rightarrow> string \<Rightarrow> token list" where
  "tokens Outside [] = []"
| "tokens (Inside s) [] = [Unterminated]"
| "tokens (Escaped s) [] = [Unterminated]"
| "tokens Outside (c # cs) =
     (if c = CHR 0x22 then tokens (Inside []) cs
      else if jsonSpace c then tokens Outside cs
      else punctuation c # tokens Outside cs)"
| "tokens (Inside s) (c # cs) =
     (if c = CHR 0x22 then StringToken s # tokens Outside cs
      else if c = CHR 0x5C then tokens (Escaped (s @ [c])) cs
      else tokens (Inside (s @ [c])) cs)"
| "tokens (Escaped s) (c # cs) = tokens (Inside (s @ [c])) cs"

datatype frame = InObject | InArray

datatype expect =
    Value | ValueOrClose | NameOrClose | Name | NameSeparator | SeparatorOrClose | End

definition afterValue :: "frame list \<Rightarrow> expect" where
  "afterValue stack = (if stack = [] then End else SeparatorOrClose)"

fun startValue :: "frame list \<Rightarrow> token \<Rightarrow> (frame list \<times> expect) option" where
  "startValue stack (StringToken s) = Some (stack, afterValue stack)"
| "startValue stack LeftBrace = Some (InObject # stack, NameOrClose)"
| "startValue stack LeftBracket = Some (InArray # stack, ValueOrClose)"
| "startValue stack t = None"

fun step :: "frame list \<Rightarrow> expect \<Rightarrow> token \<Rightarrow> (frame list \<times> expect) option" where
  "step stack Value t = startValue stack t"
| "step (InArray # stack) ValueOrClose RightBracket = Some (stack, afterValue stack)"
| "step stack ValueOrClose t = startValue stack t"
| "step (InObject # stack) NameOrClose RightBrace = Some (stack, afterValue stack)"
| "step stack NameOrClose (StringToken s) = Some (stack, NameSeparator)"
| "step stack Name (StringToken s) = Some (stack, NameSeparator)"
| "step stack NameSeparator Colon = Some (stack, Value)"
| "step (InObject # stack) SeparatorOrClose Comma = Some (InObject # stack, Name)"
| "step (InArray # stack) SeparatorOrClose Comma = Some (InArray # stack, Value)"
| "step (InObject # stack) SeparatorOrClose RightBrace = Some (stack, afterValue stack)"
| "step (InArray # stack) SeparatorOrClose RightBracket = Some (stack, afterValue stack)"
| "step stack e t = None"

fun accepts :: "frame list \<Rightarrow> expect \<Rightarrow> token list \<Rightarrow> bool" where
  "accepts stack e [] = (stack = [] \<and> e = End)"
| "accepts stack e (t # ts) =
     (case step stack e t of None \<Rightarrow> False | Some (stack', e') \<Rightarrow> accepts stack' e' ts)"

definition wellFormed :: "string \<Rightarrow> bool" where
  "wellFormed text = accepts [] Value (tokens Outside text)"

text \<open>The property names of the outermost object of a text, in order.\<close>

fun namesAt :: "nat \<Rightarrow> token list \<Rightarrow> string list" where
  "namesAt depth [] = []"
| "namesAt depth (StringToken s # Colon # ts) =
     (if depth = 1 then s # namesAt depth ts else namesAt depth ts)"
| "namesAt depth (LeftBrace # ts) = namesAt (depth + 1) ts"
| "namesAt depth (LeftBracket # ts) = namesAt (depth + 1) ts"
| "namesAt depth (RightBrace # ts) = namesAt (depth - 1) ts"
| "namesAt depth (RightBracket # ts) = namesAt (depth - 1) ts"
| "namesAt depth (t # ts) = namesAt depth ts"

definition propertyNames :: "string \<Rightarrow> string list" where
  "propertyNames text = namesAt 0 (tokens Outside text)"

section \<open>A recommendation as the object the structure check reads\<close>

text \<open>
  At run time a value of the interface \<^verbatim>\<open>AIRecommendation\<close> is an object with the three
  properties, the lists being arrays.
\<close>

definition unitMetricObject :: "UnitMetric \<Rightarrow> json" where
  "unitMetricObject m =
     JObject [(''title'', JString (title m)), (''description'', JString (description m))]"

definition recommendationObject :: "AIRecommendation \<Rightarrow> json" where
  "recommendationObject r =
     JObject
       [(''unitMetrics'', JArray (map unitMetricObject (unitMetrics r))),
        (''conversationStarters'', JArray (map JString (conversationStarters r))),
        (''conditionalInsights'',
           JObject (map (\<lambda>(name, questions). (name, JArray (map JString questions)))
                      (conditionalInsights r)))]"

section \<open>A concrete run\<close>

text \<open>
  The inputs at which the theorems below are instantiated: a request for Acme with the
  first focus area selected, an environment with a plausible primary key and no secondary
  keys, an intelligence record, a secondary provider that fails, and a primary provider
  that answers with fenced text that is not JSON, for which \<^verbatim>\<open>JSON.parse\<close> throws.
\<close>

definition acmeContext :: CompanyContext where
  "acmeContext =
     \<lparr>companyName = ''Acme'', websiteUrl = ''https://www.acme.com'', email = '''',
      ppa = True, genAI = False, cloudCostConcerns = False\<rparr>"

definition acmeIntelligence :: CompanyIntelligence where
  "acmeIntelligence =
     \<lparr>CompanyIntelligence.companyName = ''Acme'', industry = ''Retail'',
      businessModel = ''B2C'',
      techStack = [''AWS'', ''React''], recentNews = [], cloudUsageIndicators = [''S3''],
      stockPerformance = None\<rparr>"

definition openAIOnly :: environment where
  "openAIOnly =
     \<lparr>VITE_OPENAI_API_KEY = Some ''sk-0123456789abcdefghijklmnop'',
      VITE_AWS_ACCESS_KEY_ID = None,
      VITE_AWS_SECRET_ACCESS_KEY = None\<rparr>"

definition noKeys :: environment where
  "noKeys =
     \<lparr>VITE_OPENAI_API_KEY = None,
      VITE_AWS_ACCESS_KEY_ID = None,
      VITE_AWS_SECRET_ACCESS_KEY = None\<rparr>"

definition fencedText :: string where
  \<open>fencedText = ''```json\<newline>not json\<newline>```''\<close>

definition syntaxErrorText :: string where
  \<open>syntaxErrorText = ''SyntaxError: Unexpected token 'o', "not json" is not valid JSON''\<close>

definition failingServices :: services where
  "failingServices =
     \<lparr>gatherCompanyIntelligence = (\<lambda>name url. Inr acmeIntelligence),
      invokeClaude = (\<lambda>prompt. Inl ''ThrottlingException''),
      createChatCompletion = (\<lambda>prompt. Inr (Some fencedText)),
      jsonParse = (\<lambda>text. Inl syntaxErrorText)\<rparr>"

definition startWorld :: world where
  "startWorld = \<lparr>openai = False, events = []\<rparr>"

section \<open>Properties of the identity validator\<close>

subsection \<open>Strings\<close>

lemma js_includes_sublist: "js_includes s t = sublist t s"
  by (induction s) (auto simp: sublist_Cons_right)

lemma trim_empty_iff: "trim s = [] \<longleftrightarrow> (\<forall>c\<in>set s. isSpace c)"
proof
  assume "trim s = []"
  then have "\<forall>c\<in>set (dropWhile isSpace s). isSpace c"
    by (simp add: trim_def)
  then have "dropWhile isSpace s = []"
    by (metis hd_dropWhile hd_in_set)
  then show "\<forall>c\<in>set s. isSpace c" by simp
next
  assume "\<forall>c\<in>set s. isSpace c"
  then show "trim s = []" by (auto simp: trim_def dest: set_dropWhileD)
qed

lemma toLowerChar_alnum: "isLowerAlnum (toLowerChar c) \<Longrightarrow> isAlnum c"
  by (auto simp: isLowerAlnum_def isAlnum_def toLowerChar_def Let_def split: if_splits)

subsection \<open>The suffix pattern\<close>

text \<open>No legal-entity suffix ends with another one, so at most one of them ends a string.\<close>

lemma suffix_legal_unique:
  "x \<in> set legalSuffixes \<Longrightarrow> y \<in> set legalSuffixes \<Longrightarrow> suffix x y \<Longrightarrow> x = y"
  by (auto simp: legalSuffixes_def suffix_to_prefix)

lemma legal_nonempty: "x \<in> set legalSuffixes \<Longrightarrow> x \<noteq> []"
  by (auto simp: legalSuffixes_def)

lemma find_suffix_legal:
  "find (\<lambda>x. suffix x s) legalSuffixes = Some x \<longleftrightarrow> x \<in> set legalSuffixes \<and> suffix x s"
proof
  assume "find (\<lambda>x. suffix x s) legalSuffixes = Some x"
  then show "x \<in> set legalSuffixes \<and> suffix x s"
    by (auto simp: find_Some_iff)
next
  assume a: "x \<in> set legalSuffixes \<and> suffix x s"
  then obtain y where y: "find (\<lambda>x. suffix x s) legalSuffixes = Some y"
    by (cases "find (\<lambda>x. suffix x s) legalSuffixes") (auto simp: find_None_iff)
  then have "y \<in> set legalSuffixes" "suffix y s" by (auto simp: find_Some_iff)
  with a have "suffix x y \<or> suffix y x" by (metis suffix_same_cases)
  with a \<open>y \<in> set legalSuffixes\<close> have "x = y" by (auto dest: suffix_legal_unique)
  with y show "find (\<lambda>x. suffix x s) legalSuffixes = Some x" by simp
qed

lemma removeSuffix_spec:
  "removeSuffix s =
     (case find (\<lambda>x. suffix x s) legalSuffixes of
        None \<Rightarrow> s | Some x \<Rightarrow> take (length s - length x) s)"
proof (induction s)
  case Nil
  have "find (\<lambda>x. suffix x []) legalSuffixes = None"
    by (auto simp: find_None_iff dest: legal_nonempty)
  then show ?case by simp
next
  case (Cons c cs)
  show ?case
  proof (cases "c # cs \<in> set legalSuffixes")
    case True
    then have "find (\<lambda>x. suffix x (c # cs)) legalSuffixes = Some (c # cs)"
      by (simp add: find_suffix_legal)
    with True show ?thesis by simp
  next
    case False
    show ?thesis
    proof (cases "find (\<lambda>x. suffix x cs) legalSuffixes")
      case None
      then have "\<forall>x\<in>set legalSuffixes. \<not> suffix x cs" by (auto simp: find_None_iff)
      with False have "\<forall>x\<in>set legalSuffixes. \<not> suffix x (c # cs)"
        by (auto simp: suffix_Cons)
      then have "find (\<lambda>x. suffix x (c # cs)) legalSuffixes = None"
        by (auto simp: find_None_iff)
      with None False Cons.IH show ?thesis by simp
    next
      case (Some x)
      then have x: "x \<in> set legalSuffixes" "suffix x cs" by (auto simp: find_suffix_legal)
      then have "x \<in> set legalSuffixes \<and> suffix x (c # cs)"
        by (simp add: suffix_Cons)
      then have "find (\<lambda>x. suffix x (c # cs)) legalSuffixes = Some x"
        by (simp only: find_suffix_legal)
      moreover from x have "length x \<le> length cs" by (simp add: suffix_length_le)
      ultimately show ?thesis using Some False Cons.IH by (simp add: Suc_diff_le)
    qed
  qed
qed

subsection \<open>The code's normalisation is the specification's\<close>

lemma cleanCompanyName_spec: "cleanCompanyName s = spec_normalizeName s"
proof -
  have "filter (\<lambda>c. \<not> isSpace c) (filter (\<lambda>c. isLowerAlnum c \<or> isSpace c) t)
      = filter (\<lambda>c. \<not> isSpace c) (filter isLowerAlnum t)" for t
    by (induction t) auto
  then show ?thesis
    by (simp add: cleanCompanyName_def spec_normalizeName_def removeSuffix_spec Let_def)
qed

text \<open>
  The code strips \<^verbatim>\<open>http://\<close> and \<^verbatim>\<open>https://\<close> only; for a URL with one of these, or
  with no scheme, its normalisation is the specification's.
\<close>

lemma removeProtocol_spec:
  assumes "spec_scheme s \<in> {None, Some ''http'', Some ''https''}"
  shows "(case spec_scheme s of
            None \<Rightarrow> s
          | Some scheme \<Rightarrow> drop (length scheme + length ''://'') s) = removeProtocol s"
proof (cases "spec_scheme s")
  case None
  have "\<not> prefix ''https://'' s" "\<not> prefix ''http://'' s"
    using None
    by (auto simp: spec_scheme_def prefix_def isSchemeChar_def isLowerAlnum_def
        isLowerLetter_def Let_def split: if_splits)
  with None show ?thesis by (simp add: removeProtocol_def)
next
  case (Some scheme)
  then have t: "takeWhile isSchemeChar s = scheme"
    and p: "prefix ''://'' (dropWhile isSchemeChar s)"
    by (auto simp: spec_scheme_def Let_def split: if_splits)
  then obtain r where "dropWhile isSchemeChar s = ''://'' @ r" by (auto simp: prefix_def)
  with t have s: "s = scheme @ ''://'' @ r"
    by (metis takeWhile_dropWhile_id)
  from Some assms have "scheme = ''http'' \<or> scheme = ''https''" by auto
  with s Some show ?thesis by (auto simp: removeProtocol_def)
qed

lemma cleanUrl_spec:
  assumes "spec_scheme (toLowerCase url) \<in> {None, Some ''http'', Some ''https''}"
  shows "cleanUrl url = spec_normalizeUrl url"
  using removeProtocol_spec [OF assms]
  by (simp add: cleanUrl_def spec_normalizeUrl_def domainPart_def removeWww_def Let_def
      eval_nat_numeral)

lemma anyWordInUrl_iff:
  "anyWordInUrl u ws \<longleftrightarrow>
     (\<exists>w\<in>set ws. 3 \<le> length (filter isLowerAlnum w) \<and> sublist (filter isLowerAlnum w) u)"
  by (induction ws) (auto simp: Let_def js_includes_sublist)

lemma anyWordInUrl_nonempty:
  "anyWordInUrl u (filter (\<lambda>w. w \<noteq> []) ws) = anyWordInUrl u ws"
  by (induction ws) (auto simp: Let_def)

lemma acronym_length: "length (acronymOf ws) \<le> length ws"
  by (simp add: acronymOf_def)

text \<open>
  Where every word of the name starts with an alphanumeric character, the code's
  acronym of first characters is the acronym of first letters.
\<close>

lemma acronymOf_spec:
  assumes "\<forall>w\<in>set (spec_words name). isLowerAlnum (hd w)"
  shows "acronymOf (splitWhitespace (toLowerCase name)) = spec_acronym name"
proof -
  have "map hd (filter (\<lambda>w. w \<noteq> []) (map (filter isLowerAlnum) ws)) = map hd ws"
    if "\<forall>w\<in>set ws. w \<noteq> [] \<and> isLowerAlnum (hd w)" for ws :: "string list"
    using that
  proof (induction ws)
    case Nil
    then show ?case by simp
  next
    case (Cons w ws)
    then obtain c cs where "w = c # cs" "isLowerAlnum c" by (cases w) auto
    with Cons show ?case by simp
  qed
  from this [of "spec_words name"] assms show ?thesis
    by (simp add: acronymOf_def spec_acronym_def spec_words_def)
qed

text \<open>
  The code and the specification's rule agree on the non-blank inputs whose words start
  with an alphanumeric character and whose URL has the scheme \<^verbatim>\<open>http\<close> or \<^verbatim>\<open>https\<close>
  or none.
\<close>

lemma validate_agrees_with_spec:
  assumes "\<exists>c\<in>set name. \<not> isSpace c" and "\<exists>c\<in>set url. \<not> isSpace c"
    and "\<forall>w\<in>set (spec_words name). isLowerAlnum (hd w)"
    and "spec_scheme (toLowerCase url) \<in> {None, Some ''http'', Some ''https''}"
  shows "validateCompanyUrlMatch name url = spec_matches name url"
proof -
  let ?ws = "splitWhitespace (toLowerCase name)"
  let ?u = "cleanUrl url"
  from assms have nb: "trim name \<noteq> []" "trim url \<noteq> []"
    by (simp_all add: trim_empty_iff)
  have acr: "acronymOf ?ws = spec_acronym name"
    by (rule acronymOf_spec [OF assms(3)])
  have u: "spec_normalizeUrl url = ?u"
    by (rule cleanUrl_spec [OF assms(4), symmetric])
  have "length (acronymOf ?ws) = length (spec_words name)"
    by (simp add: acronymOf_def spec_words_def)
  then have len: "1 < length (spec_words name) \<and> 2 \<le> length (spec_acronym name)
      \<longleftrightarrow> 1 < length ?ws \<and> 2 \<le> length (acronymOf ?ws)"
    using acronym_length [of ?ws] acr by auto
  have w: "anyWordInUrl ?u ?ws \<longleftrightarrow>
      (\<exists>w\<in>set (spec_words name). 3 \<le> length (filter isLowerAlnum w)
          \<and> sublist (filter isLowerAlnum w) ?u)"
    unfolding spec_words_def anyWordInUrl_iff [symmetric] by (simp add: anyWordInUrl_nonempty)
  show ?thesis
    using nb w len
    unfolding validateCompanyUrlMatch_def spec_matches_def
    by (auto simp: Let_def js_includes_sublist acr [symmetric] u
        cleanCompanyName_spec [symmetric])
qed

text \<open>The three examples of the specification.\<close>

lemma validate_CloudZero:
  "validateCompanyUrlMatch ''CloudZero'' ''https://www.cloudzero.com''"
  by code_simp

lemma validate_IBM:
  "validateCompanyUrlMatch ''International Business Machines'' ''https://ibm.com''"
  by code_simp

lemma validate_Acme_Globex:
  "\<not> validateCompanyUrlMatch ''Acme Corp'' ''https://www.globex.com''"
  by code_simp

text \<open>
  The code strips no scheme but \<^verbatim>\<open>http\<close> and \<^verbatim>\<open>https\<close>: for \<^verbatim>\<open>ftp://www.acme.com\<close> its
  label is \<^verbatim>\<open>ftpwww\<close>, and Acme does not match where the specification's rule holds.
\<close>

lemma validate_other_scheme:
  "validateCompanyUrlMatch ''Acme'' ''ftp://www.acme.com'' = False
   \<and> cleanUrl ''ftp://www.acme.com'' = ''ftpwww''
   \<and> spec_normalizeUrl ''ftp://www.acme.com'' = ''acme''
   \<and> spec_matches ''Acme'' ''ftp://www.acme.com'' = True"
  by code_simp

text \<open>
  Claim C3 says that \<^const>\<open>validateCompanyUrlMatch\<close> is true exactly when one of the
  four conditions holds, the fourth being that the name has more than one word and the
  acronym of the words' first letters, of length at least 2, is contained in the
  normalised URL label. The code takes the first character of each word, which need not
  be a letter. For the name \<^verbatim>\<open>(Alpha) (Beta)\<close> and the URL \<^verbatim>\<open>https://ab.com\<close> the
  normalised forms are \<^verbatim>\<open>alphabeta\<close> and \<^verbatim>\<open>ab\<close>, the acronym of first letters is
  \<^verbatim>\<open>ab\<close> and the rule holds, but the code's acronym is \<^verbatim>\<open>((\<close> and the code returns
  false.
\<close>

theorem validateCompanyUrlMatch_acronym_first_character:
  "validateCompanyUrlMatch ''(Alpha) (Beta)'' ''https://ab.com'' = False
   \<and> cleanCompanyName ''(Alpha) (Beta)'' = ''alphabeta''
   \<and> cleanUrl ''https://ab.com'' = ''ab''
   \<and> splitWhitespace (toLowerCase ''(Alpha) (Beta)'') = [''(alpha)'', ''(beta)'']
   \<and> acronymOf (splitWhitespace (toLowerCase ''(Alpha) (Beta)'')) = ''((''
   \<and> spec_acronym ''(Alpha) (Beta)'' = ''ab''
   \<and> spec_matches ''(Alpha) (Beta)'' ''https://ab.com'' = True"
  by code_simp

text \<open>
  Claim C7. When the company name or the URL is empty or holds white space only,
  \<^const>\<open>validateCompanyUrlMatch\<close> returns true: validation is skipped.
\<close>

theorem validateCompanyUrlMatch_blank:
  assumes "(\<forall>c\<in>set name. isSpace c) \<or> (\<forall>c\<in>set url. isSpace c)"
  shows "validateCompanyUrlMatch name url = True"
  using assms by (auto simp: validateCompanyUrlMatch_def trim_empty_iff)

theorem validateCompanyUrlMatch_blank_witness:
  "(\<exists>c\<in>set ''Anything''. \<not> isSpace c) \<and> validateCompanyUrlMatch ''Anything'' '''' = True
   \<and> validateCompanyUrlMatch [CHR '' '', CHR 0x09] ''https://www.globex.com'' = True"
proof -
  have "validateCompanyUrlMatch ''Anything'' '''' = True"
    using validateCompanyUrlMatch_blank [of "''Anything''" "''''"] by simp
  moreover have "validateCompanyUrlMatch [CHR '' '', CHR 0x09] ''https://www.globex.com'' = True"
    using validateCompanyUrlMatch_blank [of "[CHR '' '', CHR 0x09]" "''https://www.globex.com''"]
    by (simp add: isSpace_def)
  moreover have "\<exists>c\<in>set ''Anything''. \<not> isSpace c" by (simp add: isSpace_def)
  ultimately show ?thesis by simp
qed

text \<open>
  Claim C9. Let the company name and the URL each hold a character other than white
  space, let the name hold no alphanumeric character, and let the URL's first label (the
  lower-cased URL without its scheme and \<^verbatim>\<open>www.\<close>, up to the first dot) hold none.
  Then both normalised forms are the empty string and \<^const>\<open>validateCompanyUrlMatch\<close>
  returns true through the equality test, whatever the inputs are otherwise.
\<close>

theorem validateCompanyUrlMatch_no_alnum:
  assumes "\<exists>c\<in>set name. \<not> isSpace c" and "\<exists>c\<in>set url. \<not> isSpace c"
    and "\<forall>c\<in>set name. \<not> isAlnum c"
    and "\<forall>c\<in>set (domainPart url). \<not> isLowerAlnum c"
  shows "cleanCompanyName name = [] \<and> cleanUrl url = []
         \<and> trim name \<noteq> [] \<and> trim url \<noteq> []
         \<and> validateCompanyUrlMatch name url = True"
proof -
  have "filter (\<lambda>c. \<not> isSpace c)
          (filter (\<lambda>c. isLowerAlnum c \<or> isSpace c) (toLowerCase name)) = []"
    using assms(3) by (auto simp: toLowerCase_def filter_empty_conv dest: toLowerChar_alnum)
  then have n: "cleanCompanyName name = []"
    by (simp add: cleanCompanyName_def)
  have u: "cleanUrl url = []"
    using assms(4) by (simp add: cleanUrl_def)
  from assms(1,2) have "trim name \<noteq> []" "trim url \<noteq> []"
    by (simp_all add: trim_empty_iff)
  with n u show ?thesis by (simp add: validateCompanyUrlMatch_def)
qed

theorem validateCompanyUrlMatch_no_alnum_witness:
  "cleanCompanyName ''!!!'' = [] \<and> cleanUrl ''https://www.---.com'' = []
   \<and> validateCompanyUrlMatch ''!!!'' ''https://www.---.com'' = True"
proof -
  have "\<exists>c\<in>set ''!!!''. \<not> isSpace c" "\<exists>c\<in>set ''https://www.---.com''. \<not> isSpace c"
    by (simp_all add: isSpace_def)
  moreover have "\<forall>c\<in>set ''!!!''. \<not> isAlnum c"
    by (simp add: isAlnum_def)
  moreover have "domainPart ''https://www.---.com'' = ''---''"
    by code_simp
  then have "\<forall>c\<in>set (domainPart ''https://www.---.com''). \<not> isLowerAlnum c"
    by (simp add: isLowerAlnum_def)
  ultimately show ?thesis
    using validateCompanyUrlMatch_no_alnum [of "''!!!''" "''https://www.---.com''"] by simp
qed

section \<open>Properties of the recommendation service\<close>

subsection \<open>Events and credentials\<close>

lemma events_emit [simp]: "events (emit e w) = events w @ [e]"
  by (simp add: emit_def)

lemma openai_emit [simp]: "openai (emit e w) = openai w"
  by (simp add: emit_def)

lemma isValidApiKey_plausible: "isValidApiKey key = spec_plausible key"
  by (auto simp: isValidApiKey_def spec_plausible_def js_includes_sublist trim_empty_iff
      split: option.splits)

lemma isValidApiKey_length: "isValidApiKey (Some k) \<Longrightarrow> 20 < length k"
  by (simp add: isValidApiKey_def)

subsection \<open>Errors and events of the steps\<close>

lemma validateStructure_no_credential:
  "validateStructure v \<noteq> Inl (CredentialError m)"
  by (auto simp: validateStructure_def property_def split: sum.splits json.splits)

lemma parse_no_credential:
  "fst (parseRecommendations svc r w) \<noteq> Inl (CredentialError m)"
  by (auto simp: parseRecommendations_def validateStructure_no_credential split: sum.splits)

lemma parse_events:
  "e \<in> set (events w) \<Longrightarrow> e \<in> set (events (snd (parseRecommendations svc r w)))"
  by (auto simp: parseRecommendations_def split: sum.splits)

lemma request_no_credential:
  assumes "isValidApiKey (VITE_OPENAI_API_KEY env)"
  shows "fst (requestRecommendations env svc ctx i a w) \<noteq> Inl (CredentialError m)"
  using assms parse_no_credential
  by (auto simp: requestRecommendations_def getOpenAI_def Let_def
      split: sum.splits option.splits prod.splits if_splits)

lemma request_events:
  "e \<in> set (events w) \<Longrightarrow>
     e \<in> set (events (snd (requestRecommendations env svc ctx i a w)))"
  by (auto simp: requestRecommendations_def getOpenAI_def Let_def
      split: sum.splits option.splits prod.splits if_splits intro!: parse_events)

lemma getIndustryAnalysis_Inr:
  "fst (getIndustryAnalysis svc i w) =
     Inr (case invokeClaude svc (industryPrompt i) of
            Inr analysis \<Rightarrow> analysis | Inl failure \<Rightarrow> industryFallback i)"
  by (simp add: getIndustryAnalysis_def Let_def split: sum.splits)

lemma generateBody_invalid:
  assumes "\<not> isValidApiKey (VITE_OPENAI_API_KEY env)"
  shows "generateBody env svc ctx w =
     (Inl (CredentialError
        (''OpenAI API key is invalid or missing. Please check your .env.local file. ''
         @ ''Current key: ''
         @ (case VITE_OPENAI_API_KEY env of
              None \<Rightarrow> ''Not set''
            | Some k \<Rightarrow> if k = [] then ''Not set'' else ''Set but invalid''))),
      emit (keyStatus env False
              (isValidApiKey (VITE_AWS_ACCESS_KEY_ID env)
               \<and> isValidApiKey (VITE_AWS_SECRET_ACCESS_KEY env))) w)"
  using assms by (simp add: generateBody_def Let_def)

lemma generateBody_no_credential:
  assumes "isValidApiKey (VITE_OPENAI_API_KEY env)"
  shows "fst (generateBody env svc ctx w) \<noteq> Inl (CredentialError m)"
  using assms request_no_credential [OF assms]
  by (auto simp: generateBody_def Let_def getIndustryAnalysis_def
      split: sum.splits prod.splits if_splits)

lemma generateBody_warns:
  assumes "isValidApiKey (VITE_OPENAI_API_KEY env)"
    and "\<not> (isValidApiKey (VITE_AWS_ACCESS_KEY_ID env)
            \<and> isValidApiKey (VITE_AWS_SECRET_ACCESS_KEY env))"
  shows "ConsoleWarn [''AWS credentials invalid, proceeding with OpenAI only'']
           \<in> set (events (snd (generateBody env svc ctx w)))"
  using assms
  by (auto simp: generateBody_def Let_def split: sum.splits prod.splits intro!: request_events)

lemma generate_fst:
  "fst (generateRecommendations env svc ctx w) = fst (generateBody env svc ctx w)"
  by (simp add: generateRecommendations_def split: prod.splits sum.splits)

lemma generate_events:
  "e \<in> set (events (snd (generateBody env svc ctx w))) \<Longrightarrow>
     e \<in> set (events (snd (generateRecommendations env svc ctx w)))"
  by (auto simp: generateRecommendations_def split: prod.splits sum.splits)

subsection \<open>The credential check\<close>

text \<open>
  Claim C10. \<^const>\<open>isValidApiKey\<close> holds of a credential exactly when it is defined, is
  not blank, does not contain \<^verbatim>\<open>your_\<close> anywhere and is longer than 20 characters
  (\<^const>\<open>spec_plausible\<close>); a credential of exactly 20 characters is rejected. The same
  check decides both uses: a primary key that fails it makes
  \<^const>\<open>generateRecommendations\<close> fail with a credential error, and with a primary key
  that passes it a secondary pair that fails it gives no credential error but the
  warning that the run proceeds with the primary provider only.
\<close>

theorem isValidApiKey_exact:
  "isValidApiKey key = spec_plausible key
   \<and> (length k = 20 \<longrightarrow> \<not> isValidApiKey (Some k))
   \<and> (\<not> spec_plausible (VITE_OPENAI_API_KEY env) \<longrightarrow>
        (\<exists>m. fst (generateRecommendations env svc ctx w) = Inl (CredentialError m)))
   \<and> (spec_plausible (VITE_OPENAI_API_KEY env)
        \<and> \<not> (spec_plausible (VITE_AWS_ACCESS_KEY_ID env)
               \<and> spec_plausible (VITE_AWS_SECRET_ACCESS_KEY env)) \<longrightarrow>
        (\<forall>m. fst (generateRecommendations env svc ctx w) \<noteq> Inl (CredentialError m))
        \<and> ConsoleWarn [''AWS credentials invalid, proceeding with OpenAI only'']
            \<in> set (events (snd (generateRecommendations env svc ctx w))))"
proof (intro conjI impI allI)
  show "isValidApiKey key = spec_plausible key" by (rule isValidApiKey_plausible)
next
  assume "length k = 20"
  then show "\<not> isValidApiKey (Some k)" using isValidApiKey_length [of k] by auto
next
  assume "\<not> spec_plausible (VITE_OPENAI_API_KEY env)"
  then have "\<not> isValidApiKey (VITE_OPENAI_API_KEY env)" by (simp add: isValidApiKey_plausible)
  then show "\<exists>m. fst (generateRecommendations env svc ctx w) = Inl (CredentialError m)"
    by (simp add: generate_fst generateBody_invalid)
next
  fix m
  assume "spec_plausible (VITE_OPENAI_API_KEY env)
        \<and> \<not> (spec_plausible (VITE_AWS_ACCESS_KEY_ID env)
               \<and> spec_plausible (VITE_AWS_SECRET_ACCESS_KEY env))"
  then show "fst (generateRecommendations env svc ctx w) \<noteq> Inl (CredentialError m)"
    by (simp add: generate_fst generateBody_no_credential isValidApiKey_plausible)
next
  assume "spec_plausible (VITE_OPENAI_API_KEY env)
        \<and> \<not> (spec_plausible (VITE_AWS_ACCESS_KEY_ID env)
               \<and> spec_plausible (VITE_AWS_SECRET_ACCESS_KEY env))"
  then show "ConsoleWarn [''AWS credentials invalid, proceeding with OpenAI only'']
            \<in> set (events (snd (generateRecommendations env svc ctx w)))"
    by (intro generate_events generateBody_warns) (simp_all add: isValidApiKey_plausible)
qed

text \<open>
  A key of 20 characters is rejected and the same key with one more character passes;
  with no keys the run fails with a credential error; with a primary key only it warns.
\<close>

theorem isValidApiKey_exact_witness:
  "length ''sk-0123456789abcdefg'' = 20
   \<and> \<not> isValidApiKey (Some ''sk-0123456789abcdefg'')
   \<and> isValidApiKey (Some ''sk-0123456789abcdefgh'')
   \<and> \<not> spec_plausible (VITE_OPENAI_API_KEY noKeys)
   \<and> (\<exists>m. fst (generateRecommendations noKeys failingServices acmeContext startWorld)
          = Inl (CredentialError m))
   \<and> spec_plausible (VITE_OPENAI_API_KEY openAIOnly)
   \<and> \<not> spec_plausible (VITE_AWS_ACCESS_KEY_ID openAIOnly)
   \<and> ConsoleWarn [''AWS credentials invalid, proceeding with OpenAI only'']
        \<in> set (events (snd (generateRecommendations openAIOnly failingServices acmeContext
                              startWorld)))"
proof -
  have a: "length ''sk-0123456789abcdefg'' = 20" by simp
  have b: "spec_plausible (Some ''sk-0123456789abcdefgh'')"
    by (simp add: spec_plausible_def isSpace_def sublist_code prefix_code)
  have c: "\<not> spec_plausible (VITE_OPENAI_API_KEY noKeys)"
    by (simp add: noKeys_def spec_plausible_def)
  have d: "spec_plausible (VITE_OPENAI_API_KEY openAIOnly)"
    by (simp add: openAIOnly_def spec_plausible_def isSpace_def sublist_code prefix_code)
  have e: "\<not> spec_plausible (VITE_AWS_ACCESS_KEY_ID openAIOnly)"
    by (simp add: openAIOnly_def spec_plausible_def)
  show ?thesis
    using a b c d e
      isValidApiKey_exact [of "Some ''sk-0123456789abcdefg''" "''sk-0123456789abcdefg''"
        noKeys failingServices acmeContext startWorld]
      isValidApiKey_exact [of "Some ''sk-0123456789abcdefgh''" "[]"
        openAIOnly failingServices acmeContext startWorld]
    by blast
qed

subsection \<open>The fatal credential check\<close>

text \<open>
  Claim C4. When the primary key is absent or fails \<^const>\<open>isValidApiKey\<close>,
  \<^const>\<open>generateRecommendations\<close> fails with a credential error, whatever the request
  and the services are. It writes the key status and the error to the console and does
  nothing else: no request to the intelligence gatherer, to the secondary provider or to
  the primary provider is among the events, and the client is not constructed.
\<close>

theorem invalid_primary_key_fatal:
  assumes "\<not> isValidApiKey (VITE_OPENAI_API_KEY env)"
  shows "(\<exists>m. generateRecommendations env svc ctx w =
            (Inl (CredentialError m),
             w\<lparr>events := events w @
                [keyStatus env False
                   (isValidApiKey (VITE_AWS_ACCESS_KEY_ID env)
                    \<and> isValidApiKey (VITE_AWS_SECRET_ACCESS_KEY env)),
                 ConsoleError [''Error generating AI recommendations:'', m]]\<rparr>))
         \<and> generateRecommendations env svc ctx w = generateRecommendations env svc' ctx' w"
  using assms by (simp add: generateRecommendations_def generateBody_invalid emit_def)

theorem invalid_primary_key_fatal_witness:
  "\<not> isValidApiKey (VITE_OPENAI_API_KEY noKeys)
   \<and> (\<exists>m. generateRecommendations noKeys failingServices acmeContext startWorld =
          (Inl (CredentialError m),
           \<lparr>openai = False,
            events =
              [ConsoleLog [''API Key Status:'', ''openAI: Invalid/Missing'',
                 ''aws: Invalid/Missing'', ''openAIKey: Not set'', ''awsKeyId: Not set''],
               ConsoleError [''Error generating AI recommendations:'', m]]\<rparr>))"
proof -
  have h: "\<not> isValidApiKey (VITE_OPENAI_API_KEY noKeys)"
    by (simp add: noKeys_def isValidApiKey_def)
  from invalid_primary_key_fatal [OF h, of failingServices acmeContext startWorld]
  show ?thesis using h
    by (simp add: startWorld_def keyStatus_def noKeys_def keyPreview_def isValidApiKey_def)
qed

subsection \<open>The industry analysis\<close>

text \<open>
  Claim C8. \<^const>\<open>getIndustryAnalysis\<close> always returns a text and never an error. When
  the secondary provider fails, the text is the fallback sentence, and that sentence is
  the same for two intelligence records that agree on the company name, the industry and
  the business model.
\<close>

theorem getIndustryAnalysis_never_raises:
  "(\<exists>analysis. fst (getIndustryAnalysis svc intelligence w) = Inr analysis)
   \<and> (\<forall>failure. invokeClaude svc (industryPrompt intelligence) = Inl failure \<longrightarrow>
         fst (getIndustryAnalysis svc intelligence w) = Inr (industryFallback intelligence))
   \<and> (CompanyIntelligence.companyName intelligence = CompanyIntelligence.companyName other
        \<and> industry intelligence = industry other
        \<and> businessModel intelligence = businessModel other \<longrightarrow>
      industryFallback intelligence = industryFallback other)"
  by (simp add: getIndustryAnalysis_Inr industryFallback_def)

theorem getIndustryAnalysis_never_raises_witness:
  \<open>invokeClaude failingServices (industryPrompt acmeIntelligence) = Inl ''ThrottlingException''
   \<and> fst (getIndustryAnalysis failingServices acmeIntelligence startWorld)
       = Inr (''Based on Acme's Retail industry focus and B2C business model, they likely ''
              @ ''have significant cloud infrastructure needs with potential for cost ''
              @ ''optimization through unit economics and usage-based monitoring.'')\<close>
proof -
  have f: "invokeClaude failingServices (industryPrompt acmeIntelligence)
      = Inl ''ThrottlingException''"
    by (simp add: failingServices_def)
  have t: "industryFallback acmeIntelligence
      = ''Based on Acme's Retail industry focus and B2C business model, they likely ''
        @ ''have significant cloud infrastructure needs with potential for cost ''
        @ ''optimization through unit economics and usage-based monitoring.''"
    by code_simp
  from getIndustryAnalysis_never_raises [of failingServices acmeIntelligence startWorld]
  have "\<forall>failure. invokeClaude failingServices (industryPrompt acmeIntelligence) = Inl failure
      \<longrightarrow> fst (getIndustryAnalysis failingServices acmeIntelligence startWorld)
          = Inr (industryFallback acmeIntelligence)"
    by (rule conjunct1 [OF conjunct2])
  with f have "fst (getIndustryAnalysis failingServices acmeIntelligence startWorld)
          = Inr (industryFallback acmeIntelligence)"
    by blast
  with f t show ?thesis by (simp only:)
qed

subsection \<open>A response that does not parse\<close>

text \<open>
  Claim C5, as stated, fails: the error thrown for a response that does not parse is
  built from the parser's message, not from the response. At the concrete run the
  primary provider answers \<^const>\<open>fencedText\<close>, the cleaned text \<^verbatim>\<open>not json\<close> does not
  parse, and the message of the error does not contain the raw response.
\<close>

theorem parse_error_message_without_raw_text:
  \<open>fst (generateRecommendations openAIOnly failingServices acmeContext startWorld)
     = Inl (ParseError
         (''Failed to parse AI response as JSON: ''
          @ ''SyntaxError: Unexpected token 'o', "not json" is not valid JSON''))
   \<and> createChatCompletion failingServices
        (buildEnhancedPrompt acmeContext acmeIntelligence []) = Inr (Some fencedText)
   \<and> cleanResponse fencedText = ''not json''
   \<and> sublist fencedText
        (''Failed to parse AI response as JSON: ''
          @ ''SyntaxError: Unexpected token 'o', "not json" is not valid JSON'')
      = False\<close>
proof -
  have \<open>fst (generateRecommendations openAIOnly failingServices acmeContext startWorld)
     = Inl (ParseError
         (''Failed to parse AI response as JSON: ''
          @ ''SyntaxError: Unexpected token 'o', "not json" is not valid JSON''))\<close>
    by code_simp
  moreover have "createChatCompletion failingServices
        (buildEnhancedPrompt acmeContext acmeIntelligence []) = Inr (Some fencedText)"
    by (simp add: failingServices_def)
  moreover have "cleanResponse fencedText = ''not json''"
    by code_simp
  moreover have \<open>sublist fencedText
        (''Failed to parse AI response as JSON: ''
          @ ''SyntaxError: Unexpected token 'o', "not json" is not valid JSON'')
      = False\<close>
    by code_simp
  ultimately show ?thesis by (intro conjI)
qed

text \<open>
  Claim C5, amended. Let the primary key be valid, let the gatherer return an
  intelligence record, let the primary provider answer the prompt built from it with a
  non-empty response, and let \<^verbatim>\<open>JSON.parse\<close> fail on the cleaned response with the
  text \<open>parseError\<close>. Then \<^const>\<open>generateRecommendations\<close> fails with a parse error
  whose message is \<^verbatim>\<open>Failed to parse AI response as JSON: \<close> followed by
  \<open>parseError\<close>, and the raw response is written to the error console.
\<close>

theorem parse_failure:
  assumes "isValidApiKey (VITE_OPENAI_API_KEY env)"
    and "gatherCompanyIntelligence svc (CompanyContext.companyName ctx)
           (CompanyContext.websiteUrl ctx) = Inr intelligence"
    and "analysis =
           (if isValidApiKey (VITE_AWS_ACCESS_KEY_ID env)
               \<and> isValidApiKey (VITE_AWS_SECRET_ACCESS_KEY env)
            then (case invokeClaude svc (industryPrompt intelligence) of
                    Inr text \<Rightarrow> text | Inl failure \<Rightarrow> industryFallback intelligence)
            else [])"
    and "createChatCompletion svc (buildEnhancedPrompt ctx intelligence analysis)
           = Inr (Some response)"
    and "response \<noteq> []"
    and "jsonParse svc (cleanResponse response) = Inl parseError"
  shows "fst (generateRecommendations env svc ctx w)
           = Inl (ParseError (''Failed to parse AI response as JSON: '' @ parseError))
         \<and> ConsoleError [''JSON parse error:'', parseError, ''Raw response:'', response]
             \<in> set (events (snd (generateRecommendations env svc ctx w)))"
proof -
  have p: "parseRecommendations svc response w' =
      (Inl (ParseError (''Failed to parse AI response as JSON: '' @ parseError)),
       emit (ConsoleError [''JSON parse error:'', parseError, ''Raw response:'', response]) w')"
    for w'
    using assms(6) by (simp add: parseRecommendations_def)
  have r: "requestRecommendations env svc ctx intelligence analysis w' =
      (Inl (ParseError (''Failed to parse AI response as JSON: '' @ parseError)),
       emit (ConsoleError [''JSON parse error:'', parseError, ''Raw response:'', response])
         (emit (ConsoleLog [''OpenAI raw response:'', response])
           (emit (ChatCompletionRequest (buildEnhancedPrompt ctx intelligence analysis))
             (snd (getOpenAI env
                (emit (ConsoleLog [''Generating recommendations with OpenAI...'']) w'))))))"
    for w'
    using assms(1,4,5) p
    by (simp add: requestRecommendations_def getOpenAI_def Let_def split: prod.splits)
  have b: "fst (generateBody env svc ctx w)
           = Inl (ParseError (''Failed to parse AI response as JSON: '' @ parseError))
         \<and> ConsoleError [''JSON parse error:'', parseError, ''Raw response:'', response]
             \<in> set (events (snd (generateBody env svc ctx w)))"
    using assms(1,2,3) r
    by (auto simp: generateBody_def Let_def getIndustryAnalysis_def split: sum.splits)
  then show ?thesis
    by (simp add: generate_fst generate_events)
qed

theorem parse_failure_witness:
  "fst (generateRecommendations openAIOnly failingServices acmeContext startWorld)
     = Inl (ParseError (''Failed to parse AI response as JSON: '' @ syntaxErrorText))
   \<and> ConsoleError [''JSON parse error:'', syntaxErrorText, ''Raw response:'', fencedText]
       \<in> set (events (snd (generateRecommendations openAIOnly failingServices acmeContext
                             startWorld)))"
proof -
  have 1: "isValidApiKey (VITE_OPENAI_API_KEY openAIOnly)" by code_simp
  have 2: "gatherCompanyIntelligence failingServices (CompanyContext.companyName acmeContext)
           (CompanyContext.websiteUrl acmeContext) = Inr acmeIntelligence"
    by (simp add: failingServices_def)
  have 3: "[] =
           (if isValidApiKey (VITE_AWS_ACCESS_KEY_ID openAIOnly)
               \<and> isValidApiKey (VITE_AWS_SECRET_ACCESS_KEY openAIOnly)
            then (case invokeClaude failingServices (industryPrompt acmeIntelligence) of
                    Inr text \<Rightarrow> text | Inl failure \<Rightarrow> industryFallback acmeIntelligence)
            else [])"
    by (simp add: openAIOnly_def isValidApiKey_def)
  have 4: "createChatCompletion failingServices
             (buildEnhancedPrompt acmeContext acmeIntelligence []) = Inr (Some fencedText)"
    by (simp add: failingServices_def)
  have 5: "fencedText \<noteq> []" by (simp add: fencedText_def)
  have 6: "jsonParse failingServices (cleanResponse fencedText) = Inl syntaxErrorText"
    by (simp add: failingServices_def)
  from parse_failure [OF 1 2 3 4 5 6] show ?thesis .
qed

subsection \<open>The fallback recommendations\<close>

lemma length_fallbackUnitMetrics: "length (fallbackUnitMetrics n) = 5"
  by (simp add: fallbackUnitMetrics_def)

lemma length_fallbackConversationStarters: "length (fallbackConversationStarters n) = 3"
  by (simp add: fallbackConversationStarters_def)

lemma length_insights:
  "length (ppaInsights n) = 3" "length (genAIInsights n) = 3"
  "length (cloudCostConcernsInsights n) = 3"
  by (simp_all add: ppaInsights_def genAIInsights_def cloudCostConcernsInsights_def)

lemma fallback_unitMetrics:
  "unitMetrics (getFallbackRecommendations ctx)
     = fallbackUnitMetrics (CompanyContext.companyName ctx)"
  by (simp add: getFallbackRecommendations_def Let_def)

lemma fallback_conversationStarters:
  "conversationStarters (getFallbackRecommendations ctx)
     = fallbackConversationStarters (CompanyContext.companyName ctx)"
  by (simp add: getFallbackRecommendations_def Let_def)

lemma fallback_conditionalInsights:
  "conditionalInsights (getFallbackRecommendations ctx) =
     (if ppa ctx then [(''ppa'', ppaInsights (CompanyContext.companyName ctx))] else [])
     @ (if genAI ctx then [(''genAI'', genAIInsights (CompanyContext.companyName ctx))] else [])
     @ (if cloudCostConcerns ctx
        then [(''cloudCostConcerns'', cloudCostConcernsInsights (CompanyContext.companyName ctx))]
        else [])"
  by (simp add: getFallbackRecommendations_def Let_def)

text \<open>
  Claim C2. For every context the fallback recommendation has exactly 5 unit metrics
  and exactly 3 conversation starters; its \<^verbatim>\<open>conditionalInsights\<close> object has the
  property \<^verbatim>\<open>ppa\<close>, \<^verbatim>\<open>genAI\<close> or \<^verbatim>\<open>cloudCostConcerns\<close> exactly when the flag of that
  name is set, has no other property and none twice, and every property it has is a list
  of exactly 3 questions. The function is a total function of the context alone.
\<close>

theorem getFallbackRecommendations_shape:
  "length (unitMetrics (getFallbackRecommendations ctx)) = 5
   \<and> length (conversationStarters (getFallbackRecommendations ctx)) = 3
   \<and> (''ppa'' \<in> fst ` set (conditionalInsights (getFallbackRecommendations ctx))) = ppa ctx
   \<and> (''genAI'' \<in> fst ` set (conditionalInsights (getFallbackRecommendations ctx)))
       = genAI ctx
   \<and> (''cloudCostConcerns'' \<in> fst ` set (conditionalInsights (getFallbackRecommendations ctx)))
       = cloudCostConcerns ctx
   \<and> (\<forall>name questions.
         (name, questions) \<in> set (conditionalInsights (getFallbackRecommendations ctx)) \<longrightarrow>
         name \<in> {''ppa'', ''genAI'', ''cloudCostConcerns''} \<and> length questions = 3)
   \<and> distinct (map fst (conditionalInsights (getFallbackRecommendations ctx)))"
  by (simp add: fallback_unitMetrics fallback_conversationStarters fallback_conditionalInsights
      length_fallbackUnitMetrics length_fallbackConversationStarters length_insights)

text \<open>For Acme with the first flag only, the object has the one property \<^verbatim>\<open>ppa\<close>.\<close>

theorem getFallbackRecommendations_shape_witness:
  "map fst (conditionalInsights (getFallbackRecommendations acmeContext)) = [''ppa'']
   \<and> (\<exists>questions. (''ppa'', questions)
          \<in> set (conditionalInsights (getFallbackRecommendations acmeContext))
        \<and> length questions = 3)"
proof -
  have "conditionalInsights (getFallbackRecommendations acmeContext)
      = [(''ppa'', ppaInsights ''Acme'')]"
    by (simp add: fallback_conditionalInsights acmeContext_def)
  then show ?thesis
    using getFallbackRecommendations_shape [of acmeContext] by simp
qed

text \<open>
  Claim C6. For every context, the structure check of the synthesizer accepts the
  fallback recommendation: it returns the value and raises no error.
\<close>

theorem fallback_passes_validation:
  "validateStructure (recommendationObject (getFallbackRecommendations ctx))
     = Inr (recommendationObject (getFallbackRecommendations ctx))"
  by (simp add: validateStructure_def property_def recommendationObject_def)

subsection \<open>The schema specification of the prompt\<close>

text \<open>The prompt ends with the schema specification, for the flags of the context.\<close>

lemma buildEnhancedPrompt_schema:
  "\<exists>instructions. buildEnhancedPrompt ctx intelligence industryAnalysis =
     instructions @ schemaOpening (CompanyContext.companyName ctx)
       @ conditionalInsightsSchema (ppa ctx) (genAI ctx) (cloudCostConcerns ctx)
       @ schemaClosing (CompanyContext.companyName ctx)"
  by (simp add: buildEnhancedPrompt_def Let_def)

text \<open>
  The \<^verbatim>\<open>conditionalInsights\<close> value of the schema is well-formed exactly when the third
  flag is set or none is: the first two entries end with a comma, the third does not.
\<close>

lemma conditionalInsightsSchema_wellFormed:
  "wellFormed (conditionalInsightsSchema p g c) = (c \<or> (\<not> p \<and> \<not> g))"
  by (cases p; cases g; cases c)
    (simp_all add: conditionalInsightsSchema_def wellFormed_def jsonSpace_def punctuation_def
      afterValue_def)

text \<open>
  Claim C1 asks for a well-formed schema for every combination of the flags, with no
  trailing separator. For Acme with the first flag only, the prompt ends with the schema
  specification whose \<^verbatim>\<open>conditionalInsights\<close> value is the \<^verbatim>\<open>ppa\<close> entry with its comma
  and nothing after it before the closing brace: the value has the one property and is
  not well-formed.
\<close>

theorem conditionalInsightsSchema_trailing_separator:
  \<open>suffix (schemaOpening ''Acme'' @ conditionalInsightsSchema True False False
             @ schemaClosing ''Acme'')
      (buildEnhancedPrompt acmeContext acmeIntelligence [])
   \<and> conditionalInsightsSchema True False False =
     ''{\<newline>    "ppa": ["PPA question 1", "PPA question 2", "PPA question 3"],\<newline>    \<newline>    \<newline>  }''
   \<and> propertyNames (conditionalInsightsSchema True False False) = [''ppa'']
   \<and> wellFormed (conditionalInsightsSchema True False False) = False\<close>
proof -
  have "CompanyContext.companyName acmeContext = ''Acme''" "ppa acmeContext = True"
    "genAI acmeContext = False" "cloudCostConcerns acmeContext = False"
    by (simp_all add: acmeContext_def)
  with buildEnhancedPrompt_schema [of acmeContext acmeIntelligence "[]"]
  have "suffix (schemaOpening ''Acme'' @ conditionalInsightsSchema True False False
             @ schemaClosing ''Acme'')
      (buildEnhancedPrompt acmeContext acmeIntelligence [])"
    by (auto simp only: intro: suffixI)
  moreover have \<open>conditionalInsightsSchema True False False =
     ''{\<newline>    "ppa": ["PPA question 1", "PPA question 2", "PPA question 3"],\<newline>    \<newline>    \<newline>  }''
   \<and> propertyNames (conditionalInsightsSchema True False False) = [''ppa'']
   \<and> wellFormed (conditionalInsightsSchema True False False) = False\<close>
    by (simp add: conditionalInsightsSchema_def wellFormed_def propertyNames_def jsonSpace_def
      punctuation_def afterValue_def)
  ultimately show ?thesis by (rule conjI)
qed

end
